theory Spec2Isabelle
  imports Complex_Main
begin

section \<open>The data analysis dashboard (app.py)\<close>

text \<open>
  The program is one script, \<^verbatim>\<open>main\<close>, which the UI framework executes from top to
  bottom once per user interaction (upload, axis choice, chart choice, button click),
  and one helper, \<^verbatim>\<open>save_user_history\<close>. Everything the script reads from its
  surroundings is an input of the model (the widgets' values and the clock), and
  everything that outlives one execution is a component of the state that is passed in
  and returned: the session's \<^verbatim>\<open>st.session_state\<close>, the files of the working
  directory, and the store behind \<^verbatim>\<open>@st.cache_data\<close>.

  An exception ends the execution of the script; what was written before it stays
  written. Every function that can raise therefore returns the exception as a value
  (\<open>Inl\<close>) together with the state reached at that point.
\<close>

datatype py_error =
    JSONDecodeError
  | AttributeError
  | TypeError
  | ValueError
  | ParserError
  | EmptyDataError
  | UnicodeDecodeError

subsection \<open>The history file and \<^verbatim>\<open>save_user_history\<close>\<close>

text \<open>
  What \<^verbatim>\<open>json.load\<close> returns and \<^verbatim>\<open>json.dump\<close> accepts: Python values built from
  \<^verbatim>\<open>None\<close>, booleans, numbers, strings, lists and dictionaries with string keys (kept
  in insertion order). The three floats that are no real numbers have constructors of
  their own: Python's decoder reads them from the literals \<^verbatim>\<open>NaN\<close>, \<^verbatim>\<open>Infinity\<close> and
  \<^verbatim>\<open>-Infinity\<close>, which are no JSON, and its encoder writes them back.
\<close>

datatype json =
    JNull
  | JBool bool
  | JInt int
  | JFloat real
  | JNaN
  | JInfinity
  | JNegInfinity
  | JStr string
  | JArr "json list"
  | JObj "(string \<times> json) list"


text \<open>
  The working directory maps file names to contents; \<^verbatim>\<open>os.path.exists\<close> is
  definedness. A file is \<open>JsonText v\<close> when it is what \<^verbatim>\<open>json.dump(v, f)\<close> has written,
  from which \<^verbatim>\<open>json.load\<close> reads \<open>v\<close> back, and \<open>OtherText s\<close>, with its bytes \<open>s\<close>,
  otherwise. What \<^verbatim>\<open>json.load\<close> makes of bytes is Python's business and a parameter
  of the model, \<open>json_loads\<close>: the value read, or the exception
  (\<^verbatim>\<open>JSONDecodeError\<close> for a text the decoder rejects, \<^verbatim>\<open>UnicodeDecodeError\<close> for
  bytes that are no text). Failures of the operating system (permissions, a full disk)
  are not modelled.
\<close>

datatype file_content = JsonText json | OtherText string

type_synonym filesystem = "string \<rightharpoonup> file_content"

type_synonym json_decoder = "string \<Rightarrow> py_error + json"

definition json_load :: "json_decoder \<Rightarrow> file_content \<Rightarrow> py_error + json" where
  "json_load json_loads c = (case c of JsonText v \<Rightarrow> Inr v | OtherText s \<Rightarrow> json_loads s)"

text \<open>\<^verbatim>\<open>history.append(data_info)\<close>: only a list has the method.\<close>

definition list_append :: "json \<Rightarrow> json \<Rightarrow> py_error + json" where
  "list_append history data_info =
     (case history of
        JArr xs \<Rightarrow> Inr (JArr (xs @ [data_info]))
      | _ \<Rightarrow> Inl AttributeError)"

text \<open>
  \<^verbatim>\<open>
  def save_user_history(filename, data_info):
      history = []
      if os.path.exists(filename):
          with open(filename, 'r') as f:
              history = json.load(f)
      history.append(data_info)
      with open(filename, 'w') as f:
          json.dump(history, f)
  \<close>
  The file is opened for writing only after the load and the append have succeeded.
\<close>

definition save_user_history ::
  "json_decoder \<Rightarrow> string \<Rightarrow> json \<Rightarrow> filesystem \<Rightarrow> (py_error + unit) \<times> filesystem" where
  "save_user_history json_loads filename data_info fs =
     (case (case fs filename of
              None \<Rightarrow> Inr (JArr [])
            | Some c \<Rightarrow> json_load json_loads c) of
        Inl e \<Rightarrow> (Inl e, fs)
      | Inr history \<Rightarrow>
          (case list_append history data_info of
             Inl e \<Rightarrow> (Inl e, fs)
           | Inr history' \<Rightarrow> (Inr (), fs(filename \<mapsto> JsonText history'))))"

text \<open>
  The log a file state stands for: the absent file is the empty log, a file from which
  \<^verbatim>\<open>json.load\<close> reads a list is that list, and any other content is no log.
\<close>

definition history_log :: "json_decoder \<Rightarrow> file_content option \<Rightarrow> json list option" where
  "history_log json_loads st =
     (case st of
        None \<Rightarrow> Some []
      | Some c \<Rightarrow>
          (case json_load json_loads c of
             Inr (JArr xs) \<Rightarrow> Some xs
           | _ \<Rightarrow> None))"

subsection \<open>Data frames\<close>

text \<open>
  A pandas \<^verbatim>\<open>DataFrame\<close>: an index of \<open>nrows\<close> rows and a list of named columns, each
  with a dtype and one cell per row. \<open>NA\<close> is the missing cell (pandas' \<^verbatim>\<open>NaN\<close>).
  Finite floating-point numbers are idealised as reals: rounding and the infinities are
  not modelled, and no statement below depends on either.
\<close>

datatype dtype = Int64 | Float64 | Bool | Object

datatype cell = NA | IntV int | FloatV real | BoolV bool | StrV string

record column =
  cname :: string
  col_dtype :: dtype
  cells :: "cell list"

record dataframe =
  nrows :: nat
  columns :: "column list"

text \<open>Every column has one cell per row of the index.\<close>

definition rectangular :: "dataframe \<Rightarrow> bool" where
  "rectangular df = list_all (\<lambda>c. length (cells c) = nrows df) (columns df)"

text \<open>\<^verbatim>\<open>len(df)\<close> and \<^verbatim>\<open>len(df.columns)\<close>.\<close>

definition len_df :: "dataframe \<Rightarrow> int" where
  "len_df df = int (nrows df)"

definition column_names :: "dataframe \<Rightarrow> string list" where
  "column_names df = map cname (columns df)"

definition len_columns :: "dataframe \<Rightarrow> int" where
  "len_columns df = int (length (column_names df))"

text \<open>
  \<^verbatim>\<open>df.isna().sum().sum()\<close>: \<^verbatim>\<open>isna\<close> turns every cell into the boolean "is missing",
  the first \<^verbatim>\<open>sum\<close> adds each column up (\<^verbatim>\<open>True\<close> counting 1), the second adds the
  column sums.
\<close>

definition isna :: "dataframe \<Rightarrow> (string \<times> bool list) list" where
  "isna df = map (\<lambda>c. (cname c, map (\<lambda>v. v = NA) (cells c))) (columns df)"

definition sum_bools :: "bool list \<Rightarrow> int" where
  "sum_bools bs = sum_list (map (\<lambda>b. if b then 1 else 0) bs)"

definition frame_sum :: "(string \<times> bool list) list \<Rightarrow> (string \<times> int) list" where
  "frame_sum fr = map (\<lambda>(n, bs). (n, sum_bools bs)) fr"

definition series_sum :: "(string \<times> int) list \<Rightarrow> int" where
  "series_sum se = sum_list (map snd se)"

definition missing_values :: "dataframe \<Rightarrow> int" where
  "missing_values df = series_sum (frame_sum (isna df))"

text \<open>\<^verbatim>\<open>df.head()\<close>: the first five rows.\<close>

definition head :: "dataframe \<Rightarrow> dataframe" where
  "head df =
     \<lparr>nrows = min 5 (nrows df),
      columns = map (\<lambda>c. c\<lparr>cells := take 5 (cells c)\<rparr>) (columns df)\<rparr>"

text \<open>
  \<^verbatim>\<open>df.select_dtypes(include=['float64', 'int64']).columns\<close> and \<^verbatim>\<open>df[numeric_cols]\<close>
  (selection by a list of labels: for each label, the columns carrying it).
\<close>

definition is_numeric :: "column \<Rightarrow> bool" where
  "is_numeric c = (col_dtype c = Float64 \<or> col_dtype c = Int64)"

definition select_dtypes_numeric :: "dataframe \<Rightarrow> string list" where
  "select_dtypes_numeric df = map cname (filter is_numeric (columns df))"

definition getitem_columns :: "dataframe \<Rightarrow> string list \<Rightarrow> column list" where
  "getitem_columns df names =
     concat (map (\<lambda>n. filter (\<lambda>c. cname c = n) (columns df)) names)"

subsection \<open>Descriptive statistics and correlation\<close>

text \<open>
  The results of \<^verbatim>\<open>describe()\<close> and \<^verbatim>\<open>corr()\<close> are frames of float64 values; a
  float64 is a finite number or \<^verbatim>\<open>NaN\<close>. The value of a numeric cell: a missing cell
  has none.
\<close>

datatype float64 = NaN | Fin real

fun cell_value :: "cell \<Rightarrow> real option" where
  "cell_value (IntV i) = Some (real_of_int i)"
| "cell_value (FloatV r) = Some r"
| "cell_value _ = None"

definition non_missing :: "cell list \<Rightarrow> real list" where
  "non_missing cs = List.map_filter cell_value cs"

definition mean :: "real list \<Rightarrow> float64" where
  "mean xs = (if xs = [] then NaN else Fin (sum_list xs / real (length xs)))"

text \<open>Sample standard deviation, with the denominator \<open>n - 1\<close>.\<close>

definition std :: "real list \<Rightarrow> float64" where
  "std xs =
     (if length xs < 2 then NaN
      else let m = sum_list xs / real (length xs)
           in Fin (sqrt (sum_list (map (\<lambda>x. (x - m)\<^sup>2) xs) / (real (length xs) - 1))))"

text \<open>A percentile by linear interpolation between the two nearest order statistics.\<close>

definition quantile :: "real \<Rightarrow> real list \<Rightarrow> float64" where
  "quantile q xs =
     (if xs = [] then NaN
      else let s = sort xs;
               h = real (length s - 1) * q;
               lo = nat \<lfloor>h\<rfloor>;
               hi = min (lo + 1) (length s - 1)
           in Fin (s ! lo + (h - real lo) * (s ! hi - s ! lo)))"

definition minimum :: "real list \<Rightarrow> float64" where
  "minimum xs = (if xs = [] then NaN else Fin (Min (set xs)))"

definition maximum :: "real list \<Rightarrow> float64" where
  "maximum xs = (if xs = [] then NaN else Fin (Max (set xs)))"

record description =
  d_count :: float64
  d_mean :: float64
  d_std :: float64
  d_min :: float64
  d_q25 :: float64
  d_q50 :: float64
  d_q75 :: float64
  d_max :: float64

definition describe_column :: "cell list \<Rightarrow> description" where
  "describe_column cs =
     (let xs = non_missing cs in
      \<lparr>d_count = Fin (real (length xs)),
       d_mean = mean xs,
       d_std = std xs,
       d_min = minimum xs,
       d_q25 = quantile (1 / 4) xs,
       d_q50 = quantile (1 / 2) xs,
       d_q75 = quantile (3 / 4) xs,
       d_max = maximum xs\<rparr>)"

text \<open>\<^verbatim>\<open>DataFrame.describe()\<close> refuses a frame without columns.\<close>

definition describe :: "column list \<Rightarrow> py_error + (string \<times> description) list" where
  "describe cs =
     (if cs = [] then Inl ValueError
      else Inr (map (\<lambda>c. (cname c, describe_column (cells c))) cs))"

text \<open>
  \<^verbatim>\<open>DataFrame.corr()\<close>: Pearson's coefficient of each pair of columns, over the rows
  where both cells are present. With no such row, or when the divisor
  \<open>sqrt (ssqdm_x * ssqdm_y)\<close> is zero, the entry is \<^verbatim>\<open>NaN\<close>; otherwise the quotient,
  clipped to \<open>[-1, 1]\<close>.
\<close>

definition paired :: "cell list \<Rightarrow> cell list \<Rightarrow> (real \<times> real) list" where
  "paired a b =
     List.map_filter
       (\<lambda>(u, v). case cell_value u of
                    None \<Rightarrow> None
                  | Some x \<Rightarrow> (case cell_value v of None \<Rightarrow> None | Some y \<Rightarrow> Some (x, y)))
       (zip a b)"

definition pearson :: "(real \<times> real) list \<Rightarrow> float64" where
  "pearson ps =
     (if length ps < 1 then NaN
      else let nobs = real (length ps);
               meanx = sum_list (map fst ps) / nobs;
               meany = sum_list (map snd ps) / nobs;
               ssqdm_x = sum_list (map (\<lambda>p. (fst p - meanx)\<^sup>2) ps);
               ssqdm_y = sum_list (map (\<lambda>p. (snd p - meany)\<^sup>2) ps);
               covxy = sum_list (map (\<lambda>p. (fst p - meanx) * (snd p - meany)) ps);
               divisor = sqrt (ssqdm_x * ssqdm_y)
           in if divisor \<noteq> 0 then Fin (max (- 1) (min 1 (covxy / divisor))) else NaN)"

definition corr :: "column list \<Rightarrow> float64 list list" where
  "corr cs = map (\<lambda>a. map (\<lambda>b. pearson (paired (cells a) (cells b))) cs) cs"

subsection \<open>Session state, the data cache and the widgets\<close>

text \<open>
  \<^verbatim>\<open>st.session_state\<close> is a dictionary that lives as long as the browser session; the
  script stores an integer under \<^verbatim>\<open>analysis_count\<close> and \<^verbatim>\<open>None\<close> or a string under
  \<^verbatim>\<open>last_analysis\<close>.
\<close>

datatype pyval = PyNone | PyInt int | PyStr string

type_synonym session = "string \<rightharpoonup> pyval"

text \<open>
  \<^verbatim>\<open>
  if 'analysis_count' not in st.session_state:
      st.session_state.analysis_count = 0
  if 'last_analysis' not in st.session_state:
      st.session_state.last_analysis = None
  \<close>
\<close>

definition init_session :: "session \<Rightarrow> session" where
  "init_session ss =
     (let ss1 = (if ss ''analysis_count'' = None then ss(''analysis_count'' \<mapsto> PyInt 0) else ss)
      in if ss1 ''last_analysis'' = None then ss1(''last_analysis'' \<mapsto> PyNone) else ss1)"

text \<open>
  \<^verbatim>\<open>
  st.session_state.analysis_count += 1
  st.session_state.last_analysis = datetime.now().strftime("%Y-%m-%d %H:%M")
  \<close>
  The clock's reading, already formatted, is the argument \<open>now\<close>.
\<close>

definition update_session_statistics :: "string \<Rightarrow> session \<Rightarrow> py_error + session" where
  "update_session_statistics now ss =
     (case ss ''analysis_count'' of
        None \<Rightarrow> Inl AttributeError
      | Some (PyInt n) \<Rightarrow>
          Inr ((ss(''analysis_count'' \<mapsto> PyInt (n + 1)))(''last_analysis'' \<mapsto> PyStr now))
      | Some _ \<Rightarrow> Inl TypeError)"

text \<open>The uploaded file: its name and its bytes.\<close>

record upload =
  file_name :: string
  file_bytes :: string

text \<open>
  \<^verbatim>\<open>
  @st.cache_data
  def load_data():
      return pd.read_csv(uploaded_file)

  df = load_data()
  \<close>
  \<^verbatim>\<open>st.cache_data\<close> keeps the results of a function in a store of the server process,
  under a key made of the function (its module, qualified name and source text) and of
  the arguments of the call. \<^verbatim>\<open>load_data\<close> has no parameters and the same source text
  in every execution of the script, so all its calls share one key: the store has one
  slot for it, empty (\<open>None\<close>) until a call has returned. The variable
  \<^verbatim>\<open>uploaded_file\<close> is read inside the body and is no part of the key. An exception
  is not stored.

  \<^verbatim>\<open>pd.read_csv\<close> is pandas' parser; the program hands it the upload and keeps what it
  returns or lets its exception through. It is the parameter \<open>read_csv\<close> of the model,
  from the bytes of the upload to a frame or an exception.
\<close>

type_synonym csv_reader = "string \<Rightarrow> py_error + dataframe"

definition load_data ::
  "csv_reader \<Rightarrow> upload \<Rightarrow> dataframe option \<Rightarrow> (py_error + dataframe) \<times> dataframe option" where
  "load_data read_csv uploaded_file slot =
     (case slot of
        Some df \<Rightarrow> (Inr df, slot)
      | None \<Rightarrow>
          (case read_csv (file_bytes uploaded_file) of
             Inl e \<Rightarrow> (Inl e, None)
           | Inr df \<Rightarrow> (Inr df, Some df)))"

text \<open>
  \<^verbatim>\<open>st.selectbox(label, options)\<close> returns the option the user picked, the first option
  until the user has picked one (or when the pick is not among the options any more),
  and \<^verbatim>\<open>None\<close> when there is no option. The pick is a position in the list.
\<close>

definition selectbox :: "string list \<Rightarrow> nat \<Rightarrow> string option" where
  "selectbox opts pick =
     (if opts = [] then None
      else if pick < length opts then Some (opts ! pick)
      else Some (opts ! 0))"

text \<open>\<^verbatim>\<open>st.radio\<close> over the four chart types returns one of them.\<close>

datatype chart_type = ScatterPlot | LineChart | BarChart | BoxPlot

subsection \<open>The chart\<close>

record figure =
  fig_kind :: chart_type
  fig_x :: "string option"
  fig_y :: "string option"
  fig_title :: string

text \<open>An f-string prints \<^verbatim>\<open>None\<close> as the text None.\<close>

definition fmt :: "string option \<Rightarrow> string" where
  "fmt v = (case v of None \<Rightarrow> ''None'' | Some s \<Rightarrow> s)"

text \<open>
  The plotting functions \<^verbatim>\<open>px.scatter\<close>, \<^verbatim>\<open>px.line\<close>, \<^verbatim>\<open>px.bar\<close> and \<^verbatim>\<open>px.box\<close>
  take the frame and the two axis arguments. An argument that names no column of the
  frame raises \<^verbatim>\<open>ValueError\<close>; \<^verbatim>\<open>None\<close> is an argument left out. With both left out
  the frame is read in wide form, which raises \<^verbatim>\<open>ValueError\<close> when the columns are
  not all of one kind (numbers, booleans, objects). The dtype of a named column is not
  looked at.
\<close>

definition known_column :: "dataframe \<Rightarrow> string option \<Rightarrow> bool" where
  "known_column df a = (case a of None \<Rightarrow> True | Some n \<Rightarrow> n \<in> set (column_names df))"

definition dtype_kind :: "dtype \<Rightarrow> nat" where
  "dtype_kind d = (case d of Int64 \<Rightarrow> 0 | Float64 \<Rightarrow> 0 | Bool \<Rightarrow> 1 | Object \<Rightarrow> 2)"

definition one_kind :: "dataframe \<Rightarrow> bool" where
  "one_kind df =
     (case columns df of
        [] \<Rightarrow> True
      | c # cs \<Rightarrow> list_all (\<lambda>d. dtype_kind (col_dtype d) = dtype_kind (col_dtype c)) cs)"

definition px_figure ::
  "dataframe \<Rightarrow> chart_type \<Rightarrow> string option \<Rightarrow> string option \<Rightarrow> string \<Rightarrow> py_error + figure" where
  "px_figure df k x y title =
     (if \<not> known_column df x then Inl ValueError
      else if \<not> known_column df y then Inl ValueError
      else if x = None \<and> y = None \<and> \<not> one_kind df then Inl ValueError
      else Inr \<lparr>fig_kind = k, fig_x = x, fig_y = y, fig_title = title\<rparr>)"

text \<open>
  \<^verbatim>\<open>
  if chart_type == "Scatter Plot":
      fig = px.scatter(df, x=x_axis, y=y_axis, title=f"{y_axis} vs {x_axis}")
  elif chart_type == "Line Chart":
      fig = px.line(df, x=x_axis, y=y_axis, title=f"{y_axis} over {x_axis}")
  elif chart_type == "Bar Chart":
      fig = px.bar(df, x=x_axis, y=y_axis, title=f"{y_axis} by {x_axis}")
  else:
      fig = px.box(df, x=x_axis, y=y_axis, title=f"Distribution of {y_axis} by {x_axis}")
  \<close>
\<close>

definition build_chart ::
  "dataframe \<Rightarrow> chart_type \<Rightarrow> string option \<Rightarrow> string option \<Rightarrow> py_error + figure" where
  "build_chart df chart x_axis y_axis =
     (if chart = ScatterPlot then
        px_figure df ScatterPlot x_axis y_axis (fmt y_axis @ '' vs '' @ fmt x_axis)
      else if chart = LineChart then
        px_figure df LineChart x_axis y_axis (fmt y_axis @ '' over '' @ fmt x_axis)
      else if chart = BarChart then
        px_figure df BarChart x_axis y_axis (fmt y_axis @ '' by '' @ fmt x_axis)
      else
        px_figure df BoxPlot x_axis y_axis
          (''Distribution of '' @ fmt y_axis @ '' by '' @ fmt x_axis))"

text \<open>
  The column selection and the chart, as the script runs them:
  \<^verbatim>\<open>
  numeric_cols = df.select_dtypes(include=['float64', 'int64']).columns
  x_axis = st.selectbox("X-axis", df.columns)
  y_axis = st.selectbox("Y-axis", numeric_cols)
  chart_type = st.radio("Select Chart Type", [...])
  \<close>
\<close>

definition select_and_chart ::
  "dataframe \<Rightarrow> nat \<Rightarrow> nat \<Rightarrow> chart_type \<Rightarrow> py_error + figure" where
  "select_and_chart df x_pick y_pick chart =
     (let numeric_cols = select_dtypes_numeric df;
          x_axis = selectbox (column_names df) x_pick;
          y_axis = selectbox numeric_cols y_pick
      in build_chart df chart x_axis y_axis)"

subsection \<open>The script\<close>

text \<open>
  What one execution reads: the upload widget, the clock (formatted as the script
  formats it, once for the history and once for the name of the export), the positions
  picked in the two select boxes, the chart type, and the two buttons, each \<open>True\<close> only
  in the execution its click starts. \<open>example_csv\<close> is the text of the random example
  frame that the example branch writes.
\<close>

record inputs =
  uploaded_file :: "upload option"
  now_minute :: string
  now_second :: string
  x_pick :: nat
  y_pick :: nat
  chart_choice :: chart_type
  download_clicked :: bool
  example_clicked :: bool
  example_csv :: string

text \<open>What outlives one execution.\<close>

record world =
  session_state :: session
  files :: filesystem
  data_cache :: "dataframe option"

text \<open>
  What the main content puts on the page, in the order of the script: the three
  numbers and the preview (lines 124 to 137), then the chart (line 166), then the
  statistics, the heatmap and the export (lines 169 to 193). An exception ends the
  execution where it is raised, and what was put on the page before it stays there,
  with the exception under it: nothing of the main content, the overview, or the
  overview and the chart.
\<close>

record overview =
  total_rows :: int
  total_columns :: int
  missing :: int
  preview :: dataframe

record charted = overview +
  chart :: figure

record page = charted +
  statistics :: "(string \<times> description) list"
  heatmap :: "float64 list list"
  download :: "(string \<times> string) option"

datatype shown = NoContent | UpToPreview overview | UpToChart charted

type_synonym interrupted = "py_error \<times> shown"

datatype screen = Welcome "(string \<times> string) option" | Dashboard page

text \<open>
  \<^verbatim>\<open>
  analysis_info = {"filename": uploaded_file.name,
                   "timestamp": st.session_state.last_analysis,
                   "rows": len(df), "columns": len(df.columns)}
  \<close>
  \<open>timestamp\<close> is the string stored under \<^verbatim>\<open>last_analysis\<close> two lines before.
\<close>

definition analysis_info :: "upload \<Rightarrow> string \<Rightarrow> dataframe \<Rightarrow> json" where
  "analysis_info f timestamp df =
     JObj [(''filename'', JStr (file_name f)),
           (''timestamp'', JStr timestamp),
           (''rows'', JInt (len_df df)),
           (''columns'', JInt (len_columns df))]"

text \<open>
  The main content, from the title to the export button. \<^verbatim>\<open>DataFrame.to_csv\<close> is
  pandas' writer, the parameter \<open>to_csv\<close>. The chart functions can raise after the
  overview is shown, and \<^verbatim>\<open>describe\<close> after the chart is shown.
\<close>

type_synonym csv_writer = "dataframe \<Rightarrow> string"

definition main_content :: "csv_writer \<Rightarrow> inputs \<Rightarrow> dataframe \<Rightarrow> interrupted + page" where
  "main_content to_csv inp df =
     (case select_and_chart df (x_pick inp) (y_pick inp) (chart_choice inp) of
        Inl e \<Rightarrow>
          Inl (e, UpToPreview
                    \<lparr>total_rows = len_df df,
                     total_columns = len_columns df,
                     missing = missing_values df,
                     preview = head df\<rparr>)
      | Inr fig \<Rightarrow>
          (case describe (getitem_columns df (select_dtypes_numeric df)) of
             Inl e \<Rightarrow>
               Inl (e, UpToChart
                         \<lparr>total_rows = len_df df,
                          total_columns = len_columns df,
                          missing = missing_values df,
                          preview = head df,
                          chart = fig\<rparr>)
           | Inr stats \<Rightarrow>
               Inr \<lparr>total_rows = len_df df,
                    total_columns = len_columns df,
                    missing = missing_values df,
                    preview = head df,
                    chart = fig,
                    statistics = stats,
                    heatmap = corr (getitem_columns df (select_dtypes_numeric df)),
                    download =
                      (if download_clicked inp
                       then Some (''processed_data_'' @ now_second inp @ ''.csv'', to_csv df)
                       else None)\<rparr>))"

text \<open>
  One execution of \<^verbatim>\<open>main\<close>. With an upload: load (through the cache), update the
  session statistics, append to the history file, show the main content. Without one:
  the welcome page, whose example button writes \<^verbatim>\<open>example.csv\<close>. An exception of
  the load, of the update or of \<open>save_user_history\<close> comes before any main content.
\<close>

definition main ::
  "csv_reader \<Rightarrow> csv_writer \<Rightarrow> json_decoder \<Rightarrow> inputs \<Rightarrow> world
     \<Rightarrow> (interrupted + screen) \<times> world" where
  "main read_csv to_csv json_loads inp w =
     (let w0 = w\<lparr>session_state := init_session (session_state w)\<rparr> in
      case uploaded_file inp of
        None \<Rightarrow>
          (if example_clicked inp
           then (Inr (Welcome (Some (''example.csv'', example_csv inp))),
                 w0\<lparr>files := (files w0)(''example.csv'' \<mapsto> OtherText (example_csv inp))\<rparr>)
           else (Inr (Welcome None), w0))
      | Some f \<Rightarrow>
          (case load_data read_csv f (data_cache w0) of
             (Inl e, slot) \<Rightarrow> (Inl (e, NoContent), w0\<lparr>data_cache := slot\<rparr>)
           | (Inr df, slot) \<Rightarrow>
               (case update_session_statistics (now_minute inp) (session_state w0) of
                  Inl e \<Rightarrow> (Inl (e, NoContent), w0\<lparr>data_cache := slot\<rparr>)
                | Inr ss \<Rightarrow>
                    (case save_user_history json_loads ''analysis_history.json''
                            (analysis_info f (now_minute inp) df) (files w0) of
                       (Inl e, fs) \<Rightarrow>
                         (Inl (e, NoContent),
                          w0\<lparr>session_state := ss, files := fs, data_cache := slot\<rparr>)
                     | (Inr u, fs) \<Rightarrow>
                         (map_sum id Dashboard (main_content to_csv inp df),
                          w0\<lparr>session_state := ss, files := fs, data_cache := slot\<rparr>)))))"

text \<open>The chart on the page after an execution, if one was shown.\<close>

definition chart_shown :: "interrupted + screen \<Rightarrow> figure option" where
  "chart_shown out =
     (case out of
        Inl (e, UpToChart c) \<Rightarrow> Some (chart c)
      | Inl (e, _) \<Rightarrow> None
      | Inr (Dashboard pg) \<Rightarrow> Some (chart pg)
      | Inr (Welcome d) \<Rightarrow> None)"

text \<open>
  A sequence of executions, each started by one interaction; the page of an execution
  (or its exception) is shown and the next execution starts from the state it left.
\<close>

fun run ::
  "csv_reader \<Rightarrow> csv_writer \<Rightarrow> json_decoder \<Rightarrow> inputs list \<Rightarrow> world \<Rightarrow> world" where
  "run read_csv to_csv json_loads [] w = w"
| "run read_csv to_csv json_loads (inp # inps) w =
     run read_csv to_csv json_loads inps (snd (main read_csv to_csv json_loads inp w))"

text \<open>
  The start: a new session (an empty \<^verbatim>\<open>st.session_state\<close>) in a new server process
  (an empty cache) in a working directory with the given files.
\<close>

definition fresh :: "filesystem \<Rightarrow> world" where
  "fresh fs = \<lparr>session_state = Map.empty, files = fs, data_cache = None\<rparr>"

text \<open>Observations of the state: the counter, the timestamp and the history log.\<close>

definition analysis_count :: "world \<Rightarrow> pyval option" where
  "analysis_count w = init_session (session_state w) ''analysis_count''"

definition last_analysis :: "world \<Rightarrow> pyval option" where
  "last_analysis w = init_session (session_state w) ''last_analysis''"

definition history :: "json_decoder \<Rightarrow> world \<Rightarrow> json list option" where
  "history json_loads w = history_log json_loads (files w ''analysis_history.json'')"

text \<open>The \<^verbatim>\<open>filename\<close> entry of a history record.\<close>

definition record_filename :: "json \<Rightarrow> string option" where
  "record_filename r =
     (case r of
        JObj kvs \<Rightarrow> (case map_of kvs ''filename'' of Some (JStr s) \<Rightarrow> Some s | _ \<Rightarrow> None)
      | _ \<Rightarrow> None)"

text \<open>A numeric column whose present values are all the same has zero variance.\<close>

definition zero_variance :: "real list \<Rightarrow> bool" where
  "zero_variance xs = (case xs of [] \<Rightarrow> True | x # r \<Rightarrow> list_all (\<lambda>y. y = x) r)"

subsection \<open>Concrete files, frames and interactions\<close>

text \<open>
  The three-row file of the specification's scenario, \<^verbatim>\<open>a,b\n1,2\n,4\n5,6\<close>, and the
  frame pandas reads from it: the empty field makes \<open>a\<close> a float64 column with a missing
  second cell, and \<open>b\<close> is int64.
\<close>

definition newline :: char where
  "newline = CHR 0x0A"

definition scenario_csv :: string where
  "scenario_csv = ''a,b'' @ [newline] @ ''1,2'' @ [newline] @ '',4'' @ [newline] @ ''5,6''"

definition scenario_df :: dataframe where
  "scenario_df =
     \<lparr>nrows = 3,
      columns =
        [\<lparr>cname = ''a'', col_dtype = Float64, cells = [FloatV 1, NA, FloatV 5]\<rparr>,
         \<lparr>cname = ''b'', col_dtype = Int64, cells = [IntV 2, IntV 4, IntV 6]\<rparr>]\<rparr>"

text \<open>A file with a text column on each side of a numeric one, and its frame.\<close>

definition sales_csv :: string where
  "sales_csv =
     ''Date,Sales,Region'' @ [newline] @ ''2023-01-01,100.5,North'' @ [newline]
       @ ''2023-01-02,120.5,South''"

definition sales_df :: dataframe where
  "sales_df =
     \<lparr>nrows = 2,
      columns =
        [\<lparr>cname = ''Date'', col_dtype = Object,
          cells = [StrV ''2023-01-01'', StrV ''2023-01-02'']\<rparr>,
         \<lparr>cname = ''Sales'', col_dtype = Float64, cells = [FloatV (201 / 2), FloatV (241 / 2)]\<rparr>,
         \<lparr>cname = ''Region'', col_dtype = Object, cells = [StrV ''North'', StrV ''South'']\<rparr>]\<rparr>"

text \<open>A text that is no table: the quote of the second line is never closed.\<close>

definition broken_csv :: string where
  "broken_csv = ''a,b'' @ [newline] @ [CHR 0x22] @ ''1,2''"

text \<open>
  A frame with a numeric column without any value (\<open>e\<close>), a constant numeric column
  (\<open>k\<close>) and a varying one (\<open>v\<close>).
\<close>

definition flat_df :: dataframe where
  "flat_df =
     \<lparr>nrows = 3,
      columns =
        [\<lparr>cname = ''e'', col_dtype = Float64, cells = [NA, NA, NA]\<rparr>,
         \<lparr>cname = ''k'', col_dtype = Int64, cells = [IntV 2, IntV 2, IntV 2]\<rparr>,
         \<lparr>cname = ''v'', col_dtype = Float64, cells = [FloatV 1, FloatV 2, FloatV 3]\<rparr>]\<rparr>"

text \<open>A file with text columns only, and its frame: no column is float64 or int64.\<close>

definition notes_csv :: string where
  "notes_csv = ''Name,City'' @ [newline] @ ''Ann,Oslo'' @ [newline] @ ''Bob,Rome''"

definition notes_df :: dataframe where
  "notes_df =
     \<lparr>nrows = 2,
      columns =
        [\<lparr>cname = ''Name'', col_dtype = Object, cells = [StrV ''Ann'', StrV ''Bob'']\<rparr>,
         \<lparr>cname = ''City'', col_dtype = Object, cells = [StrV ''Oslo'', StrV ''Rome'']\<rparr>]\<rparr>"

text \<open>A reader that does on these four texts what pandas does, and a writer.\<close>

definition sample_reader :: csv_reader where
  "sample_reader bytes =
     (if bytes = scenario_csv then Inr scenario_df
      else if bytes = sales_csv then Inr sales_df
      else if bytes = notes_csv then Inr notes_df
      else Inl ParserError)"

text \<open>
  A decoder that does on five texts what \<^verbatim>\<open>json.load\<close> does: it reads the lists
  \<^verbatim>\<open>[1]\<close> and \<^verbatim>\<open>[NaN]\<close> and the dictionary \<^verbatim>\<open>{}\<close>, rejects the truncated
  \<^verbatim>\<open>[{\<close>, and cannot read the byte \<open>0xFF\<close> as text.
\<close>

definition sample_decoder :: json_decoder where
  "sample_decoder bytes =
     (if bytes = ''[1]'' then Inr (JArr [JInt 1])
      else if bytes = ''[NaN]'' then Inr (JArr [JNaN])
      else if bytes = ''{}'' then Inr (JObj [])
      else if bytes = [CHR 0xFF] then Inl UnicodeDecodeError
      else Inl JSONDecodeError)"

definition sample_writer :: csv_writer where
  "sample_writer df = concat (map (\<lambda>c. cname c @ '','') (columns df))"

definition scenario_file :: upload where
  "scenario_file = \<lparr>file_name = ''scenario.csv'', file_bytes = scenario_csv\<rparr>"

definition sales_file :: upload where
  "sales_file = \<lparr>file_name = ''sales.csv'', file_bytes = sales_csv\<rparr>"

definition notes_file :: upload where
  "notes_file = \<lparr>file_name = ''notes.csv'', file_bytes = notes_csv\<rparr>"

definition broken_file :: upload where
  "broken_file = \<lparr>file_name = ''broken.csv'', file_bytes = broken_csv\<rparr>"

text \<open>
  Interactions: an upload leaves every other widget at its default; a change of the
  chart type and a click on the export button happen with the file still in the upload
  widget.
\<close>

definition upload_of :: "upload \<Rightarrow> string \<Rightarrow> inputs" where
  "upload_of f now =
     \<lparr>uploaded_file = Some f, now_minute = now, now_second = ''20240501_100000'',
      x_pick = 0, y_pick = 0, chart_choice = ScatterPlot,
      download_clicked = False, example_clicked = False, example_csv = []\<rparr>"

definition chart_change_of :: "upload \<Rightarrow> string \<Rightarrow> inputs" where
  "chart_change_of f now = (upload_of f now)\<lparr>chart_choice := LineChart\<rparr>"

definition export_click_of :: "upload \<Rightarrow> string \<Rightarrow> inputs" where
  "export_click_of f now = (upload_of f now)\<lparr>download_clicked := True\<rparr>"

text \<open>The state after the upload of the sales file in a new session, process and directory.\<close>

definition loaded_world :: world where
  "loaded_world =
     run sample_reader sample_writer sample_decoder
       [upload_of sales_file ''2024-05-01 10:00''] (fresh Map.empty)"

section \<open>Properties\<close>

subsection \<open>The history file\<close>

lemma save_user_history_absent:
  "fs filename = None \<Longrightarrow>
   save_user_history json_loads filename r fs
     = (Inr (), fs(filename \<mapsto> JsonText (JArr [r])))"
  by (simp add: save_user_history_def list_append_def)

lemma save_user_history_array:
  "fs filename = Some c \<Longrightarrow> json_load json_loads c = Inr (JArr old) \<Longrightarrow>
   save_user_history json_loads filename r fs
     = (Inr (), fs(filename \<mapsto> JsonText (JArr (old @ [r]))))"
  by (simp add: save_user_history_def list_append_def)

lemma history_log_Some:
  "history_log json_loads st = Some old \<longleftrightarrow>
     (st = None \<and> old = []) \<or> (\<exists>c. st = Some c \<and> json_load json_loads c = Inr (JArr old))"
  by (auto simp: history_log_def split: option.splits sum.splits json.splits)

lemma save_user_history_log:
  assumes "history_log json_loads (fs filename) = Some old"
  shows "save_user_history json_loads filename r fs =
           (Inr (), fs(filename \<mapsto> JsonText (JArr (old @ [r]))))"
  using assms save_user_history_absent [of fs filename json_loads r]
    save_user_history_array [of fs filename _ json_loads old r]
  by (auto simp: history_log_Some)

lemma history_log_written:
  "history_log json_loads (Some (JsonText (JArr xs))) = Some xs"
  by (simp add: history_log_def json_load_def)

text \<open>
  C4. For every record and every well-formed state of the history file (the absent file
  being the empty log), \<open>save_user_history\<close> returns normally and leaves a file whose
  contents read back as the old records, unchanged and in their order, followed by the
  new record; no other file is touched.
\<close>

theorem save_user_history_appends:
  assumes "history_log json_loads (fs filename) = Some old"
  shows "\<exists>fs'. save_user_history json_loads filename r fs = (Inr (), fs')
           \<and> history_log json_loads (fs' filename) = Some (old @ [r])
           \<and> (\<forall>other. other \<noteq> filename \<longrightarrow> fs' other = fs other)"
  using assms save_user_history_log [of json_loads fs filename old r]
  by (simp add: history_log_written)

theorem save_user_history_appends_witness:
  "history_log sample_decoder
       ((Map.empty(''h.json'' \<mapsto> JsonText (JArr [JInt 1]))) ''h.json'') = Some [JInt 1]
   \<and> (\<exists>fs'. save_user_history sample_decoder ''h.json'' (JInt 2)
               (Map.empty(''h.json'' \<mapsto> JsonText (JArr [JInt 1]))) = (Inr (), fs')
           \<and> history_log sample_decoder (fs' ''h.json'') = Some [JInt 1, JInt 2])"
proof -
  have h: "history_log sample_decoder
             ((Map.empty(''h.json'' \<mapsto> JsonText (JArr [JInt 1]))) ''h.json'') = Some [JInt 1]"
    by (simp add: history_log_written)
  show ?thesis
    using h save_user_history_appends
      [of sample_decoder "Map.empty(''h.json'' \<mapsto> JsonText (JArr [JInt 1]))" "''h.json''"
        "[JInt 1]" "JInt 2"]
    by auto
qed






subsection \<open>One execution with an upload\<close>

lemma init_session_count:
  "init_session ss ''analysis_count'' =
     (case ss ''analysis_count'' of None \<Rightarrow> Some (PyInt 0) | Some v \<Rightarrow> Some v)"
  by (simp add: init_session_def Let_def split: option.splits)

lemma init_session_last:
  "init_session ss ''last_analysis'' =
     (case ss ''last_analysis'' of None \<Rightarrow> Some PyNone | Some v \<Rightarrow> Some v)"
  by (simp add: init_session_def Let_def split: option.splits)

lemma update_session_statistics_int:
  "ss ''analysis_count'' = Some (PyInt n) \<Longrightarrow>
   update_session_statistics now ss =
     Inr ((ss(''analysis_count'' \<mapsto> PyInt (n + 1)))(''last_analysis'' \<mapsto> PyStr now))"
  by (simp add: update_session_statistics_def)

text \<open>
  The state after an execution whose load succeeds, when the counter is an integer and
  the history file is well-formed: whatever the other widgets say, and whether or not
  the main content raises afterwards.
\<close>

lemma main_loaded:
  assumes up: "uploaded_file inp = Some f"
    and ld: "load_data read_csv f (data_cache w) = (Inr df, slot)"
    and cnt: "analysis_count w = Some (PyInt n)"
    and hist: "history json_loads w = Some old"
  shows "snd (main read_csv to_csv json_loads inp w) =
           \<lparr>session_state =
              ((init_session (session_state w))(''analysis_count'' \<mapsto> PyInt (n + 1)))
                (''last_analysis'' \<mapsto> PyStr (now_minute inp)),
            files = (files w)(''analysis_history.json'' \<mapsto>
                      JsonText (JArr (old @ [analysis_info f (now_minute inp) df]))),
            data_cache = slot\<rparr>"
proof -
  have u: "update_session_statistics (now_minute inp) (init_session (session_state w)) =
      Inr (((init_session (session_state w))(''analysis_count'' \<mapsto> PyInt (n + 1)))
        (''last_analysis'' \<mapsto> PyStr (now_minute inp)))"
    using cnt by (simp add: analysis_count_def update_session_statistics_int)
  have s: "save_user_history json_loads ''analysis_history.json''
             (analysis_info f (now_minute inp) df) (files w) =
      (Inr (), (files w)(''analysis_history.json'' \<mapsto>
                      JsonText (JArr (old @ [analysis_info f (now_minute inp) df]))))"
    using hist by (simp add: history_def save_user_history_log)
  show ?thesis
    by (simp add: main_def Let_def up ld u s)
qed

lemma analysis_count_after:
  "analysis_count \<lparr>session_state = (ss(''analysis_count'' \<mapsto> v))(''last_analysis'' \<mapsto> t),
     files = fs, data_cache = c\<rparr> = Some v"
  by (simp add: analysis_count_def init_session_def)

lemma last_analysis_after:
  "last_analysis \<lparr>session_state = (ss(''analysis_count'' \<mapsto> v))(''last_analysis'' \<mapsto> t),
     files = fs, data_cache = c\<rparr> = Some t"
  by (simp add: last_analysis_def init_session_def)

lemma history_after:
  "history json_loads \<lparr>session_state = ss,
     files = fs(''analysis_history.json'' \<mapsto> JsonText (JArr xs)), data_cache = c\<rparr> = Some xs"
  by (simp add: history_def history_log_written)

lemma run_with_upload:
  assumes "uploaded_file inp = Some f"
    and "load_data read_csv f (data_cache w) = (Inr df, slot)"
    and "analysis_count w = Some (PyInt n)"
    and "history json_loads w = Some old"
  shows "analysis_count (snd (main read_csv to_csv json_loads inp w)) = Some (PyInt (n + 1))"
    and "last_analysis (snd (main read_csv to_csv json_loads inp w)) = Some (PyStr (now_minute inp))"
    and "history json_loads (snd (main read_csv to_csv json_loads inp w)) =
            Some (old @ [analysis_info f (now_minute inp) df])"
    and "data_cache (snd (main read_csv to_csv json_loads inp w)) = slot"
  using main_loaded [OF assms, of to_csv]
  by (simp_all add: analysis_count_after last_analysis_after history_after)

lemma fresh_observed:
  "analysis_count (fresh fs) = Some (PyInt 0)"
  "data_cache (fresh fs) = None"
  "history json_loads (fresh fs) = history_log json_loads (fs ''analysis_history.json'')"
  by (simp_all add: fresh_def analysis_count_def init_session_def history_def)

lemma load_data_cold:
  "read_csv (file_bytes f) = Inr df \<Longrightarrow> load_data read_csv f None = (Inr df, Some df)"
  by (simp add: load_data_def)

text \<open>A filled slot answers every call: the reader is not asked and the upload is not read.\<close>

lemma load_data_warm:
  "load_data read_csv f (Some df) = (Inr df, Some df)"
  by (simp add: load_data_def)

lemma record_filename_info:
  "record_filename (analysis_info f t df) = Some (file_name f)"
  by (simp add: record_filename_def analysis_info_def)

lemma two_uploads:
  assumes u1: "uploaded_file inp1 = Some f1" and u2: "uploaded_file inp2 = Some f2"
    and r1: "read_csv (file_bytes f1) = Inr df1"
    and h: "fs ''analysis_history.json'' = None"
  shows "analysis_count (run read_csv to_csv json_loads [inp1, inp2] (fresh fs)) = Some (PyInt 2)"
    and "history json_loads (run read_csv to_csv json_loads [inp1, inp2] (fresh fs)) =
           Some [analysis_info f1 (now_minute inp1) df1, analysis_info f2 (now_minute inp2) df1]"
proof -
  let ?w1 = "snd (main read_csv to_csv json_loads inp1 (fresh fs))"
  have l1: "load_data read_csv f1 (data_cache (fresh fs)) = (Inr df1, Some df1)"
    using r1 by (simp add: fresh_observed load_data_cold)
  have h0: "history json_loads (fresh fs) = Some []"
    using h by (simp add: fresh_observed history_log_def)
  note a = run_with_upload [OF u1 l1 fresh_observed(1) h0, of to_csv]
  have l2: "load_data read_csv f2 (data_cache ?w1) = (Inr df1, Some df1)"
    using a(4) by (simp add: load_data_warm)
  have c1: "analysis_count ?w1 = Some (PyInt 1)"
    using a(1) by simp
  have h1: "history json_loads ?w1 = Some [analysis_info f1 (now_minute inp1) df1]"
    using a(3) by simp
  note b = run_with_upload [OF u2 l2 c1 h1, of to_csv]
  show "analysis_count (run read_csv to_csv json_loads [inp1, inp2] (fresh fs)) = Some (PyInt 2)"
    using b(1) by simp
  show "history json_loads (run read_csv to_csv json_loads [inp1, inp2] (fresh fs)) =
           Some [analysis_info f1 (now_minute inp1) df1, analysis_info f2 (now_minute inp2) df1]"
    using b(3) by simp
qed

text \<open>
  C1 (as amended). The counter goes up by exactly 1, the timestamp is set, and exactly
  one record is appended to the history file in every execution of the script in which
  a file is in the upload widget and its load succeeds (the counter being an integer
  and the history file well-formed), whichever interaction started the execution:
  the statement holds for every chart type and both states of the export button. Hence
  after two uploads that load, in a new session with no history file, the counter is 2
  and the history file holds exactly two records, the first upload's before the
  second's.
\<close>

theorem every_run_with_upload_is_counted:
  "(uploaded_file inp = Some f \<longrightarrow>
    load_data read_csv f (data_cache w) = (Inr df, slot) \<longrightarrow>
    analysis_count w = Some (PyInt n) \<longrightarrow>
    history json_loads w = Some old \<longrightarrow>
      analysis_count (snd (main read_csv to_csv json_loads inp w)) = Some (PyInt (n + 1))
      \<and> last_analysis (snd (main read_csv to_csv json_loads inp w)) = Some (PyStr (now_minute inp))
      \<and> (\<exists>r. history json_loads (snd (main read_csv to_csv json_loads inp w)) = Some (old @ [r])
             \<and> record_filename r = Some (file_name f)))
   \<and> (uploaded_file inp1 = Some f1 \<longrightarrow>
      uploaded_file inp2 = Some f2 \<longrightarrow>
      read_csv (file_bytes f1) = Inr df1 \<longrightarrow>
      read_csv (file_bytes f2) = Inr df2 \<longrightarrow>
      fs ''analysis_history.json'' = None \<longrightarrow>
        analysis_count (run read_csv to_csv json_loads [inp1, inp2] (fresh fs)) = Some (PyInt 2)
        \<and> (\<exists>r1 r2. history json_loads (run read_csv to_csv json_loads [inp1, inp2] (fresh fs)) = Some [r1, r2]
               \<and> record_filename r1 = Some (file_name f1)
               \<and> record_filename r2 = Some (file_name f2)))"
proof (intro conjI impI)
  assume a: "uploaded_file inp = Some f" "load_data read_csv f (data_cache w) = (Inr df, slot)"
    "analysis_count w = Some (PyInt n)" "history json_loads w = Some old"
  show "analysis_count (snd (main read_csv to_csv json_loads inp w)) = Some (PyInt (n + 1))"
    by (rule run_with_upload(1) [OF a])
  show "last_analysis (snd (main read_csv to_csv json_loads inp w)) = Some (PyStr (now_minute inp))"
    by (rule run_with_upload(2) [OF a])
  show "\<exists>r. history json_loads (snd (main read_csv to_csv json_loads inp w)) = Some (old @ [r])
             \<and> record_filename r = Some (file_name f)"
    using run_with_upload(3) [OF a, of to_csv] by (simp add: record_filename_info)
next
  assume b: "uploaded_file inp1 = Some f1" "uploaded_file inp2 = Some f2"
    "read_csv (file_bytes f1) = Inr df1" "fs ''analysis_history.json'' = None"
  show "analysis_count (run read_csv to_csv json_loads [inp1, inp2] (fresh fs)) = Some (PyInt 2)"
    using b two_uploads(1) [where read_csv = read_csv and fs = fs and ?f1.0 = f1 and ?df1.0 = df1]
    by blast
  show "\<exists>r1 r2. history json_loads (run read_csv to_csv json_loads [inp1, inp2] (fresh fs)) = Some [r1, r2]
               \<and> record_filename r1 = Some (file_name f1)
               \<and> record_filename r2 = Some (file_name f2)"
    using b two_uploads(2) [where read_csv = read_csv and fs = fs and ?f1.0 = f1 and ?df1.0 = df1
        and ?inp1.0 = inp1 and ?inp2.0 = inp2 and ?f2.0 = f2 and to_csv = to_csv]
    by (simp add: record_filename_info)
qed

lemma main_loaded_page:
  assumes up: "uploaded_file inp = Some f"
    and ld: "load_data read_csv f (data_cache w) = (Inr df, slot)"
    and cnt: "analysis_count w = Some (PyInt n)"
    and hist: "history json_loads w = Some old"
  shows "fst (main read_csv to_csv json_loads inp w) = map_sum id Dashboard (main_content to_csv inp df)"
proof -
  have u: "update_session_statistics (now_minute inp) (init_session (session_state w)) =
      Inr (((init_session (session_state w))(''analysis_count'' \<mapsto> PyInt (n + 1)))
        (''last_analysis'' \<mapsto> PyStr (now_minute inp)))"
    using cnt by (simp add: analysis_count_def update_session_statistics_int)
  have s: "save_user_history json_loads ''analysis_history.json''
             (analysis_info f (now_minute inp) df) (files w) =
      (Inr (), (files w)(''analysis_history.json'' \<mapsto>
                      JsonText (JArr (old @ [analysis_info f (now_minute inp) df]))))"
    using hist by (simp add: history_def save_user_history_log)
  show ?thesis
    by (simp add: main_def Let_def up ld u s)
qed

lemma sample_reader_simps:
  "sample_reader (file_bytes scenario_file) = Inr scenario_df"
  "sample_reader (file_bytes sales_file) = Inr sales_df"
  "sample_reader (file_bytes broken_file) = Inl ParserError"
  by (simp_all add: sample_reader_def scenario_file_def sales_file_def broken_file_def
      scenario_csv_def sales_csv_def notes_csv_def broken_csv_def newline_def)

lemma uploaded_file_simps:
  "uploaded_file (upload_of f t) = Some f"
  "uploaded_file (chart_change_of f t) = Some f"
  "uploaded_file (export_click_of f t) = Some f"
  "now_minute (upload_of f t) = t"
  "now_minute (chart_change_of f t) = t"
  "now_minute (export_click_of f t) = t"
  by (simp_all add: upload_of_def chart_change_of_def export_click_of_def)

lemma loaded_world_observed:
  "analysis_count loaded_world = Some (PyInt 1)"
  "history sample_decoder loaded_world = Some [analysis_info sales_file ''2024-05-01 10:00'' sales_df]"
  "data_cache loaded_world = Some sales_df"
proof -
  have l: "load_data sample_reader sales_file (data_cache (fresh Map.empty))
             = (Inr sales_df, Some sales_df)"
    by (simp add: fresh_observed load_data_cold sample_reader_simps)
  have h: "history sample_decoder (fresh Map.empty) = Some []"
    by (simp add: fresh_observed history_log_def)
  note a = run_with_upload [OF uploaded_file_simps(1) [of sales_file "''2024-05-01 10:00''"]
      l fresh_observed(1) h, where to_csv = sample_writer]
  show "analysis_count loaded_world = Some (PyInt 1)"
    using a(1) by (simp add: loaded_world_def)
  show "history sample_decoder loaded_world = Some [analysis_info sales_file ''2024-05-01 10:00'' sales_df]"
    using a(3) by (simp add: loaded_world_def uploaded_file_simps)
  show "data_cache loaded_world = Some sales_df"
    using a(4) by (simp add: loaded_world_def)
qed

lemma loaded_world_load:
  "load_data sample_reader f (data_cache loaded_world) = (Inr sales_df, Some sales_df)"
  by (simp add: loaded_world_observed load_data_warm)

lemma sales_page:
  "\<exists>pg. main_content to_csv (upload_of f t) sales_df = Inr pg
        \<and> total_rows pg = 2 \<and> total_columns pg = 3"
  by (simp add: main_content_def select_and_chart_def selectbox_def select_dtypes_numeric_def
      column_names_def sales_df_def is_numeric_def build_chart_def px_figure_def
      known_column_def describe_def getitem_columns_def upload_of_def len_df_def
      len_columns_def Let_def)

theorem every_run_with_upload_is_counted_witness:
  "analysis_count loaded_world = Some (PyInt 1)
   \<and> analysis_count (snd (main sample_reader sample_writer sample_decoder
         (chart_change_of sales_file ''2024-05-01 10:05'') loaded_world)) = Some (PyInt 2)
   \<and> analysis_count (run sample_reader sample_writer sample_decoder
         [upload_of sales_file ''2024-05-01 10:00'', upload_of scenario_file ''2024-05-01 10:10'']
         (fresh Map.empty)) = Some (PyInt 2)"
  using every_run_with_upload_is_counted
    [where inp = "chart_change_of sales_file ''2024-05-01 10:05''" and f = sales_file
      and read_csv = sample_reader and to_csv = sample_writer and json_loads = sample_decoder
      and w = loaded_world and df = sales_df and slot = "Some sales_df" and n = 1
      and old = "[analysis_info sales_file ''2024-05-01 10:00'' sales_df]"
      and ?inp1.0 = "upload_of sales_file ''2024-05-01 10:00''" and ?f1.0 = sales_file
      and ?inp2.0 = "upload_of scenario_file ''2024-05-01 10:10''" and ?f2.0 = scenario_file
      and ?df1.0 = sales_df and ?df2.0 = scenario_df and fs = Map.empty]
  by (simp add: uploaded_file_simps load_data_warm loaded_world_observed sample_reader_simps)

text \<open>
  C1 (as stated) fails: with the sales file uploaded, a change of the chart type, and
  likewise a click on the export button, is one more execution of the script with the
  file still in the upload widget. The counter goes from 1 to 2 and the history file
  from one record to two, although nothing was loaded.
\<close>

theorem chart_change_is_counted:
  "analysis_count loaded_world = Some (PyInt 1)
   \<and> map_option length (history sample_decoder loaded_world) = Some 1
   \<and> analysis_count (snd (main sample_reader sample_writer sample_decoder
         (chart_change_of sales_file ''2024-05-01 10:05'') loaded_world)) = Some (PyInt 2)
   \<and> map_option length (history sample_decoder (snd (main sample_reader sample_writer sample_decoder
         (chart_change_of sales_file ''2024-05-01 10:05'') loaded_world))) = Some 2
   \<and> analysis_count (snd (main sample_reader sample_writer sample_decoder
         (export_click_of sales_file ''2024-05-01 10:05'') loaded_world)) = Some (PyInt 2)
   \<and> map_option length (history sample_decoder (snd (main sample_reader sample_writer sample_decoder
         (export_click_of sales_file ''2024-05-01 10:05'') loaded_world))) = Some 2"
  using
    run_with_upload [OF uploaded_file_simps(2) [of sales_file "''2024-05-01 10:05''"]
      loaded_world_load [of sales_file] loaded_world_observed(1) loaded_world_observed(2),
      where to_csv = sample_writer]
    run_with_upload [OF uploaded_file_simps(3) [of sales_file "''2024-05-01 10:05''"]
      loaded_world_load [of sales_file] loaded_world_observed(1) loaded_world_observed(2),
      where to_csv = sample_writer]
  by (simp add: loaded_world_observed)

subsection \<open>The cache\<close>

text \<open>
  With an empty slot, a text that the reader rejects ends the execution at the load:
  the session state is initialised and nothing else has changed.
\<close>

lemma parse_error_on_empty_cache:
  assumes "uploaded_file inp = Some f" and "data_cache w = None"
    and "read_csv (file_bytes f) = Inl e"
  shows "main read_csv to_csv json_loads inp w
           = (Inl (e, NoContent), w\<lparr>session_state := init_session (session_state w)\<rparr>)"
  using assms by (simp add: main_def Let_def load_data_def)

text \<open>
  C2, evaluated. The sales file has been loaded; the scenario file, a different file that
  the reader parses to a different frame, is uploaded next. \<open>load_data\<close> returns the
  sales frame again, the page shows its 2 rows and 3 columns, and the history record of
  the scenario file carries them, while the frame of the scenario file has 3 rows and 2
  columns.
\<close>

theorem new_upload_served_from_cache:
  "sample_reader (file_bytes scenario_file) = Inr scenario_df
   \<and> len_df scenario_df = 3 \<and> len_columns scenario_df = 2
   \<and> load_data sample_reader scenario_file (data_cache loaded_world)
        = (Inr sales_df, Some sales_df)
   \<and> (\<exists>pg. fst (main sample_reader sample_writer sample_decoder
                (upload_of scenario_file ''2024-05-01 10:10'') loaded_world) = Inr (Dashboard pg)
           \<and> total_rows pg = 2 \<and> total_columns pg = 3)
   \<and> history sample_decoder (snd (main sample_reader sample_writer sample_decoder
                (upload_of scenario_file ''2024-05-01 10:10'') loaded_world))
        = Some [analysis_info sales_file ''2024-05-01 10:00'' sales_df,
                JObj [(''filename'', JStr ''scenario.csv''),
                      (''timestamp'', JStr ''2024-05-01 10:10''),
                      (''rows'', JInt 2), (''columns'', JInt 3)]]"
proof -
  note a = run_with_upload [OF uploaded_file_simps(1) [of scenario_file "''2024-05-01 10:10''"]
      loaded_world_load [of scenario_file] loaded_world_observed(1) loaded_world_observed(2),
      where to_csv = sample_writer]
  note p = main_loaded_page [OF uploaded_file_simps(1) [of scenario_file "''2024-05-01 10:10''"]
      loaded_world_load [of scenario_file] loaded_world_observed(1) loaded_world_observed(2),
      where to_csv = sample_writer]
  have i: "analysis_info scenario_file ''2024-05-01 10:10'' sales_df =
             JObj [(''filename'', JStr ''scenario.csv''),
                   (''timestamp'', JStr ''2024-05-01 10:10''),
                   (''rows'', JInt 2), (''columns'', JInt 3)]"
    by (simp add: analysis_info_def scenario_file_def sales_df_def len_df_def len_columns_def
        column_names_def)
  have d: "len_df scenario_df = 3 \<and> len_columns scenario_df = 2"
    by (simp add: scenario_df_def len_df_def len_columns_def column_names_def)
  obtain pg where pg: "main_content sample_writer
       (upload_of scenario_file ''2024-05-01 10:10'') sales_df = Inr pg"
      "total_rows pg = 2" "total_columns pg = 3"
    using sales_page by blast
  show ?thesis
    using a(3) p i d pg
    by (simp add: sample_reader_simps load_data_warm loaded_world_observed uploaded_file_simps)
qed

text \<open>
  C3, evaluated. The sales file has been loaded; a text that the reader rejects is
  uploaded next. The execution does not fail: the slot answers, the dashboard of the
  sales frame is shown, the counter goes from 1 to 2 and a record for the rejected file
  is appended to the history.
\<close>

theorem broken_upload_after_valid_one:
  "sample_reader (file_bytes broken_file) = Inl ParserError
   \<and> (\<exists>pg. fst (main sample_reader sample_writer sample_decoder
                (upload_of broken_file ''2024-05-01 10:10'') loaded_world) = Inr (Dashboard pg))
   \<and> analysis_count loaded_world = Some (PyInt 1)
   \<and> analysis_count (snd (main sample_reader sample_writer sample_decoder
                (upload_of broken_file ''2024-05-01 10:10'') loaded_world)) = Some (PyInt 2)
   \<and> history sample_decoder (snd (main sample_reader sample_writer sample_decoder
                (upload_of broken_file ''2024-05-01 10:10'') loaded_world))
        = Some [analysis_info sales_file ''2024-05-01 10:00'' sales_df,
                analysis_info broken_file ''2024-05-01 10:10'' sales_df]"
proof -
  note a = run_with_upload [OF uploaded_file_simps(1) [of broken_file "''2024-05-01 10:10''"]
      loaded_world_load [of broken_file] loaded_world_observed(1) loaded_world_observed(2),
      where to_csv = sample_writer]
  note p = main_loaded_page [OF uploaded_file_simps(1) [of broken_file "''2024-05-01 10:10''"]
      loaded_world_load [of broken_file] loaded_world_observed(1) loaded_world_observed(2),
      where to_csv = sample_writer]
  obtain pg where pg: "main_content sample_writer
       (upload_of broken_file ''2024-05-01 10:10'') sales_df = Inr pg"
    using sales_page by blast
  show ?thesis
    using a(1) a(3) p pg
    by (simp add: sample_reader_simps loaded_world_observed uploaded_file_simps)
qed

subsection \<open>The summary\<close>

lemma sum_bools_nth:
  "sum_bools (map P xs) = (\<Sum>r\<leftarrow>[0..<length xs]. if P (xs ! r) then 1 else 0)"
proof -
  have "map (\<lambda>r. if P (xs ! r) then 1 else (0::int)) [0..<length xs]
          = map (\<lambda>x. if P x then 1 else 0) (map (\<lambda>i. xs ! i) [0..<length xs])"
    by (simp add: comp_def)
  also have "\<dots> = map (\<lambda>x. if P x then 1 else 0) xs"
    by (simp only: map_nth)
  finally show ?thesis
    by (simp add: sum_bools_def comp_def)
qed

lemma missing_values_columns:
  "missing_values df = (\<Sum>c\<leftarrow>columns df. sum_bools (map (\<lambda>v. v = NA) (cells c)))"
  by (simp add: missing_values_def series_sum_def frame_sum_def isna_def comp_def)

lemma missing_values_cells:
  assumes "rectangular df"
  shows "missing_values df =
           (\<Sum>c\<leftarrow>columns df. \<Sum>r\<leftarrow>[0..<nrows df]. if cells c ! r = NA then 1 else 0)"
proof -
  have "map (\<lambda>c. sum_bools (map (\<lambda>v. v = NA) (cells c))) (columns df)
          = map (\<lambda>c. \<Sum>r\<leftarrow>[0..<nrows df]. if cells c ! r = NA then 1 else 0) (columns df)"
  proof (rule map_cong [OF refl])
    fix c assume "c \<in> set (columns df)"
    then have "length (cells c) = nrows df"
      using assms by (simp add: rectangular_def list_all_iff)
    then show "sum_bools (map (\<lambda>v. v = NA) (cells c))
                 = (\<Sum>r\<leftarrow>[0..<nrows df]. if cells c ! r = NA then 1 else 0)"
      using sum_bools_nth [of "\<lambda>v. v = NA" "cells c"] by simp
  qed
  then show ?thesis
    unfolding missing_values_columns by (rule arg_cong [where f = sum_list])
qed

lemma selectbox_cases:
  "(opts = [] \<and> selectbox opts p = None) \<or> (\<exists>n. selectbox opts p = Some n \<and> n \<in> set opts)"
proof (cases "opts = []")
  case True
  then show ?thesis by (simp add: selectbox_def)
next
  case False
  then have "opts ! 0 \<in> set opts"
    by (simp add: nth_mem)
  moreover have "p < length opts \<Longrightarrow> opts ! p \<in> set opts"
    by (rule nth_mem)
  ultimately show ?thesis
    using False by (simp add: selectbox_def)
qed

lemma numeric_names_are_columns:
  "n \<in> set (select_dtypes_numeric df) \<Longrightarrow>
   \<exists>c\<in>set (columns df). cname c = n \<and> (col_dtype c = Float64 \<or> col_dtype c = Int64)"
  by (auto simp: select_dtypes_numeric_def is_numeric_def)

lemma numeric_names_known:
  "n \<in> set (select_dtypes_numeric df) \<Longrightarrow> n \<in> set (column_names df)"
  by (auto simp: select_dtypes_numeric_def column_names_def)

lemma build_chart_px:
  "build_chart df k x y = Inl ValueError \<or>
   (\<exists>t. build_chart df k x y = Inr \<lparr>fig_kind = k, fig_x = x, fig_y = y, fig_title = t\<rparr>)"
  by (cases k) (simp_all add: build_chart_def px_figure_def)

lemma build_chart_known:
  assumes "known_column df x" and "known_column df y" and "x \<noteq> None"
  shows "\<exists>t. build_chart df k x y = Inr \<lparr>fig_kind = k, fig_x = x, fig_y = y, fig_title = t\<rparr>"
  using assms by (cases k) (simp_all add: build_chart_def px_figure_def)

text \<open>With at least one column the selection and the chart never raise.\<close>

lemma select_and_chart_ok:
  assumes "columns df \<noteq> []"
  shows "\<exists>t. select_and_chart df xp yp k =
           Inr \<lparr>fig_kind = k, fig_x = selectbox (column_names df) xp,
                fig_y = selectbox (select_dtypes_numeric df) yp, fig_title = t\<rparr>"
proof -
  have "column_names df \<noteq> []"
    using assms by (simp add: column_names_def)
  then obtain n where n: "selectbox (column_names df) xp = Some n" "n \<in> set (column_names df)"
    using selectbox_cases [of "column_names df" xp] by auto
  have y: "known_column df (selectbox (select_dtypes_numeric df) yp)"
    using selectbox_cases [of "select_dtypes_numeric df" yp]
    by (auto simp: known_column_def numeric_names_known)
  have x: "known_column df (selectbox (column_names df) xp)"
    using n by (simp add: known_column_def)
  show ?thesis
    using build_chart_known [OF x y, of k] n by (simp add: select_and_chart_def Let_def)
qed

lemma getitem_numeric_nonempty:
  assumes "select_dtypes_numeric df \<noteq> []"
  shows "getitem_columns df (select_dtypes_numeric df) \<noteq> []"
proof -
  obtain n ns where ns: "select_dtypes_numeric df = n # ns"
    using assms by (cases "select_dtypes_numeric df") auto
  then have "n \<in> set (select_dtypes_numeric df)"
    by simp
  then obtain c where "c \<in> set (columns df)" "cname c = n"
    using numeric_names_are_columns by blast
  then have "filter (\<lambda>c. cname c = n) (columns df) \<noteq> []"
    by (auto simp: filter_empty_conv)
  then show ?thesis
    by (simp add: getitem_columns_def ns)
qed

text \<open>The page of a frame with a numeric column.\<close>

lemma main_content_ok:
  assumes "select_dtypes_numeric df \<noteq> []"
  shows "\<exists>pg. main_content to_csv inp df = Inr pg
           \<and> total_rows pg = len_df df
           \<and> total_columns pg = len_columns df
           \<and> missing pg = missing_values df
           \<and> statistics pg = map (\<lambda>c. (cname c, describe_column (cells c)))
                                (getitem_columns df (select_dtypes_numeric df))
           \<and> heatmap pg = corr (getitem_columns df (select_dtypes_numeric df))"
proof -
  have "columns df \<noteq> []"
    using assms by (auto simp: select_dtypes_numeric_def)
  then obtain t where
    "select_and_chart df (x_pick inp) (y_pick inp) (chart_choice inp) =
       Inr \<lparr>fig_kind = chart_choice inp, fig_x = selectbox (column_names df) (x_pick inp),
            fig_y = selectbox (select_dtypes_numeric df) (y_pick inp), fig_title = t\<rparr>"
    using select_and_chart_ok by blast
  then show ?thesis
    using getitem_numeric_nonempty [OF assms]
    by (simp add: main_content_def describe_def)
qed

lemma main_content_fields:
  assumes "main_content to_csv inp df = Inr pg"
  shows "total_rows pg = len_df df" and "total_columns pg = len_columns df"
    and "missing pg = missing_values df"
  using assms by (auto simp: main_content_def split: sum.splits)

lemma scenario_numeric:
  "select_dtypes_numeric scenario_df = [''a'', ''b'']"
  by (simp add: select_dtypes_numeric_def scenario_df_def is_numeric_def)

lemma scenario_statistics:
  "map (\<lambda>c. (cname c, describe_column (cells c)))
     (getitem_columns scenario_df (select_dtypes_numeric scenario_df))
   = [(''a'', describe_column [FloatV 1, NA, FloatV 5]),
      (''b'', describe_column [IntV 2, IntV 4, IntV 6])]"
  by (simp add: scenario_numeric getitem_columns_def) (simp add: scenario_df_def)

lemma scenario_a:
  "d_count (describe_column [FloatV 1, NA, FloatV 5]) = Fin 2"
  "d_mean (describe_column [FloatV 1, NA, FloatV 5]) = Fin 3"
  by (simp_all add: describe_column_def Let_def non_missing_def mean_def)

lemma scenario_counts:
  "len_df scenario_df = 3" "len_columns scenario_df = 2" "missing_values scenario_df = 1"
  by (simp_all add: len_df_def len_columns_def column_names_def missing_values_columns
      sum_bools_def scenario_df_def)

lemma scenario_page:
  "\<exists>pg d. main_content to_csv inp scenario_df = Inr pg
      \<and> total_rows pg = 3 \<and> total_columns pg = 2 \<and> missing pg = 1
      \<and> map_of (statistics pg) ''a'' = Some d \<and> d_count d = Fin 2 \<and> d_mean d = Fin 3"
proof -
  have "select_dtypes_numeric scenario_df \<noteq> []"
    by (simp add: scenario_numeric)
  from main_content_ok [OF this, of to_csv inp] obtain pg where
    pg: "main_content to_csv inp scenario_df = Inr pg"
      "total_rows pg = len_df scenario_df" "total_columns pg = len_columns scenario_df"
      "missing pg = missing_values scenario_df"
      "statistics pg = map (\<lambda>c. (cname c, describe_column (cells c)))
                                (getitem_columns scenario_df (select_dtypes_numeric scenario_df))"
    by blast
  have "map_of (statistics pg) ''a'' = Some (describe_column [FloatV 1, NA, FloatV 5])"
    by (simp add: pg(5) scenario_statistics)
  then show ?thesis
    using pg(1-4) scenario_a by (simp add: scenario_counts)
qed

text \<open>
  C5. For every frame with one cell per row in every column, \<^verbatim>\<open>df.isna().sum().sum()\<close>
  is the sum, over every column and every row, of the indicator that the cell is
  missing; it is the number the page shows as "Missing Values", beside the numbers of
  rows and of columns.
  In particular, when the three-row file \<^verbatim>\<open>a,b\n1,2\n,4\n5,6\<close> is uploaded in a new
  session and process, and pandas reads it as the frame \<open>scenario_df\<close>, the dashboard
  shows 3 rows, 2 columns and 1 missing value, \<open>a\<close> is among the numeric columns, and
  its description has count 2 and mean 3.
\<close>

theorem missing_count_is_sum_of_indicators:
  "(rectangular df \<longrightarrow>
      missing_values df =
        (\<Sum>c\<leftarrow>columns df. \<Sum>r\<leftarrow>[0..<nrows df]. if cells c ! r = NA then 1 else 0))
   \<and> (main_content to_csv inp df = Inr pg \<longrightarrow>
        missing pg = missing_values df
        \<and> total_rows pg = int (nrows df)
        \<and> total_columns pg = int (length (columns df)))
   \<and> (read_csv scenario_csv = Inr scenario_df \<longrightarrow>
      uploaded_file inp = Some f \<longrightarrow>
      file_bytes f = scenario_csv \<longrightarrow>
        ''a'' \<in> set (select_dtypes_numeric scenario_df)
        \<and> (\<exists>page d. fst (main read_csv to_csv json_loads inp (fresh Map.empty)) = Inr (Dashboard page)
              \<and> total_rows page = 3 \<and> total_columns page = 2 \<and> missing page = 1
              \<and> map_of (statistics page) ''a'' = Some d
              \<and> d_count d = Fin 2 \<and> d_mean d = Fin 3))"
proof (intro conjI impI)
  assume "rectangular df"
  then show "missing_values df =
          (\<Sum>c\<leftarrow>columns df. \<Sum>r\<leftarrow>[0..<nrows df]. if cells c ! r = NA then 1 else 0)"
    by (rule missing_values_cells)
next
  assume m: "main_content to_csv inp df = Inr pg"
  show "missing pg = missing_values df"
    by (rule main_content_fields(3) [OF m])
  show "total_rows pg = int (nrows df)"
    using main_content_fields(1) [OF m] by (simp add: len_df_def)
  show "total_columns pg = int (length (columns df))"
    using main_content_fields(2) [OF m] by (simp add: len_columns_def column_names_def)
next
  show "''a'' \<in> set (select_dtypes_numeric scenario_df)"
    by (simp add: scenario_numeric)
next
  assume rd: "read_csv scenario_csv = Inr scenario_df"
    and up: "uploaded_file inp = Some f" and fb: "file_bytes f = scenario_csv"
  have l: "load_data read_csv f (data_cache (fresh Map.empty))
             = (Inr scenario_df, Some scenario_df)"
    using rd fb by (simp add: fresh_observed load_data_cold)
  have h: "history json_loads (fresh Map.empty) = Some []"
    by (simp add: fresh_observed history_log_def)
  have "fst (main read_csv to_csv json_loads inp (fresh Map.empty))
          = map_sum id Dashboard (main_content to_csv inp scenario_df)"
    by (rule main_loaded_page [OF up l fresh_observed(1) h])
  then show "\<exists>page d. fst (main read_csv to_csv json_loads inp (fresh Map.empty)) = Inr (Dashboard page)
              \<and> total_rows page = 3 \<and> total_columns page = 2 \<and> missing page = 1
              \<and> map_of (statistics page) ''a'' = Some d
              \<and> d_count d = Fin 2 \<and> d_mean d = Fin 3"
    using scenario_page [of to_csv inp] by auto
qed

theorem missing_count_is_sum_of_indicators_witness:
  "rectangular scenario_df
   \<and> sample_reader scenario_csv = Inr scenario_df
   \<and> missing_values scenario_df =
         (\<Sum>c\<leftarrow>columns scenario_df. \<Sum>r\<leftarrow>[0..<nrows scenario_df].
            if cells c ! r = NA then 1 else 0)
   \<and> (\<exists>pg. main_content sample_writer (upload_of scenario_file ''2024-05-01 10:00'') scenario_df
              = Inr pg
        \<and> missing pg = missing_values scenario_df
        \<and> missing pg = 1)
   \<and> (\<exists>page d. fst (main sample_reader sample_writer sample_decoder
                      (upload_of scenario_file ''2024-05-01 10:00'') (fresh Map.empty))
                   = Inr (Dashboard page)
          \<and> total_rows page = 3 \<and> total_columns page = 2 \<and> missing page = 1
          \<and> map_of (statistics page) ''a'' = Some d
          \<and> d_count d = Fin 2 \<and> d_mean d = Fin 3)"
proof -
  have r: "rectangular scenario_df"
    by (simp add: rectangular_def scenario_df_def)
  have s: "sample_reader scenario_csv = Inr scenario_df"
    by (simp add: sample_reader_def)
  have b: "file_bytes scenario_file = scenario_csv"
    by (simp add: scenario_file_def)
  obtain pg where pg: "main_content sample_writer
      (upload_of scenario_file ''2024-05-01 10:00'') scenario_df = Inr pg" "missing pg = 1"
    using scenario_page [of sample_writer "upload_of scenario_file ''2024-05-01 10:00''"]
    by blast
  show ?thesis
    using r s b pg
      missing_count_is_sum_of_indicators
        [of scenario_df sample_writer "upload_of scenario_file ''2024-05-01 10:00''" pg
          sample_reader scenario_file]
    by (simp add: uploaded_file_simps)
qed

subsection \<open>The chart\<close>

lemma fmt_Some: "fmt (Some x) = x"
  by (simp add: fmt_def)

lemma build_chart_title:
  assumes "known_column df x" and "known_column df y" and "x \<noteq> None"
  shows "build_chart df k x y =
           Inr \<lparr>fig_kind = k, fig_x = x, fig_y = y,
                fig_title =
                  (case k of
                     ScatterPlot \<Rightarrow> fmt y @ '' vs '' @ fmt x
                   | LineChart \<Rightarrow> fmt y @ '' over '' @ fmt x
                   | BarChart \<Rightarrow> fmt y @ '' by '' @ fmt x
                   | BoxPlot \<Rightarrow> ''Distribution of '' @ fmt y @ '' by '' @ fmt x)\<rparr>"
  using assms by (cases k) (simp_all add: build_chart_def px_figure_def)

lemma y_axis_cases:
  "(select_dtypes_numeric df = [] \<and> selectbox (select_dtypes_numeric df) yp = None)
   \<or> (\<exists>y. selectbox (select_dtypes_numeric df) yp = Some y
          \<and> y \<in> set (select_dtypes_numeric df))"
  by (rule selectbox_cases)

lemma select_and_chart_built:
  assumes "select_and_chart df xp yp k = Inr fig"
  shows "fig_kind fig = k" and "fig_y fig = selectbox (select_dtypes_numeric df) yp"
proof -
  let ?x = "selectbox (column_names df) xp"
  let ?y = "selectbox (select_dtypes_numeric df) yp"
  have "build_chart df k ?x ?y = Inr fig"
    using assms by (simp add: select_and_chart_def Let_def)
  then obtain t where "fig = \<lparr>fig_kind = k, fig_x = ?x, fig_y = ?y, fig_title = t\<rparr>"
    using build_chart_px [of df k ?x ?y] by auto
  then show "fig_kind fig = k" and "fig_y fig = ?y"
    by simp_all
qed

lemma y_axis_numeric_or_none:
  assumes "select_and_chart df xp yp k = Inr fig"
  shows "(fig_y fig = None \<and> select_dtypes_numeric df = [])
         \<or> (\<exists>y. fig_y fig = Some y
               \<and> (\<exists>c\<in>set (columns df). cname c = y
                     \<and> (col_dtype c = Float64 \<or> col_dtype c = Int64)))"
  using y_axis_cases [of df yp] select_and_chart_built(2) [OF assms]
    numeric_names_are_columns [of _ df]
  by auto

text \<open>The chart on the page is the one that the selection and the chart branches built.\<close>

lemma chart_shown_main_content:
  assumes "chart_shown (map_sum id Dashboard (main_content to_csv inp df)) = Some fig"
  shows "select_and_chart df (x_pick inp) (y_pick inp) (chart_choice inp) = Inr fig"
  using assms
  by (auto simp: chart_shown_def main_content_def split: sum.splits)

lemma main_outcome:
  assumes "uploaded_file inp = Some f"
    and "load_data read_csv f (data_cache w) = (Inr df, slot)"
  shows "(\<exists>e. fst (main read_csv to_csv json_loads inp w) = Inl (e, NoContent))
         \<or> fst (main read_csv to_csv json_loads inp w)
              = map_sum id Dashboard (main_content to_csv inp df)"
  using assms by (auto simp: main_def Let_def split: sum.splits prod.splits)

lemma chart_shown_main:
  assumes "uploaded_file inp = Some f"
    and "load_data read_csv f (data_cache w) = (Inr df, slot)"
    and "chart_shown (fst (main read_csv to_csv json_loads inp w)) = Some fig"
  shows "select_and_chart df (x_pick inp) (y_pick inp) (chart_choice inp) = Inr fig"
proof -
  from main_outcome [OF assms(1,2), of to_csv json_loads]
  have "fst (main read_csv to_csv json_loads inp w)
          = map_sum id Dashboard (main_content to_csv inp df)"
    using assms(3) by (auto simp: chart_shown_def)
  then show ?thesis
    using assms(3) chart_shown_main_content by simp
qed

text \<open>
  C9 (as amended). Every chart the program builds, for every chart type and whatever
  the user picks, has as its y-axis either a column of the dataset whose dtype is
  float64 or int64 or, when the dataset has no such column, no column at all
  (\<^verbatim>\<open>y_axis\<close> is \<^verbatim>\<open>None\<close>); a chart with a non-numeric y column is unreachable. This
  holds for what the selection and the chart branches return, and for the chart that
  an execution of \<open>main\<close> leaves on the page, whether the execution ends normally or with
  an exception after the chart.
\<close>

theorem chart_y_axis_is_numeric_or_none:
  "(select_and_chart df xp yp k = Inr fig \<longrightarrow>
      fig_kind fig = k
      \<and> ((fig_y fig = None \<and> select_dtypes_numeric df = [])
          \<or> (\<exists>y. fig_y fig = Some y
                \<and> (\<exists>c\<in>set (columns df). cname c = y
                      \<and> (col_dtype c = Float64 \<or> col_dtype c = Int64)))))
   \<and> (uploaded_file inp = Some f \<longrightarrow>
      load_data read_csv f (data_cache w) = (Inr df, slot) \<longrightarrow>
      chart_shown (fst (main read_csv to_csv json_loads inp w)) = Some shown_fig \<longrightarrow>
        (fig_y shown_fig = None \<and> select_dtypes_numeric df = [])
        \<or> (\<exists>y. fig_y shown_fig = Some y
              \<and> (\<exists>c\<in>set (columns df). cname c = y
                    \<and> (col_dtype c = Float64 \<or> col_dtype c = Int64))))"
proof (intro conjI impI)
  assume a: "select_and_chart df xp yp k = Inr fig"
  show "fig_kind fig = k"
    by (rule select_and_chart_built(1) [OF a])
  show "(fig_y fig = None \<and> select_dtypes_numeric df = [])
          \<or> (\<exists>y. fig_y fig = Some y
                \<and> (\<exists>c\<in>set (columns df). cname c = y
                      \<and> (col_dtype c = Float64 \<or> col_dtype c = Int64)))"
    by (rule y_axis_numeric_or_none [OF a])
next
  assume "uploaded_file inp = Some f"
    and "load_data read_csv f (data_cache w) = (Inr df, slot)"
    and "chart_shown (fst (main read_csv to_csv json_loads inp w)) = Some shown_fig"
  then have "select_and_chart df (x_pick inp) (y_pick inp) (chart_choice inp) = Inr shown_fig"
    by (rule chart_shown_main)
  then show "(fig_y shown_fig = None \<and> select_dtypes_numeric df = [])
        \<or> (\<exists>y. fig_y shown_fig = Some y
              \<and> (\<exists>c\<in>set (columns df). cname c = y
                    \<and> (col_dtype c = Float64 \<or> col_dtype c = Int64)))"
    by (rule y_axis_numeric_or_none)
qed

lemma notes_numeric:
  "select_dtypes_numeric notes_df = []"
  by (simp add: select_dtypes_numeric_def notes_df_def is_numeric_def)

lemma notes_charts:
  "select_and_chart notes_df 0 0 ScatterPlot
     = Inr \<lparr>fig_kind = ScatterPlot, fig_x = Some ''Name'', fig_y = None,
            fig_title = ''None vs Name''\<rparr>"
  "select_and_chart notes_df 0 0 LineChart
     = Inr \<lparr>fig_kind = LineChart, fig_x = Some ''Name'', fig_y = None,
            fig_title = ''None over Name''\<rparr>"
  "select_and_chart notes_df 0 0 BarChart
     = Inr \<lparr>fig_kind = BarChart, fig_x = Some ''Name'', fig_y = None,
            fig_title = ''None by Name''\<rparr>"
  "select_and_chart notes_df 0 0 BoxPlot
     = Inr \<lparr>fig_kind = BoxPlot, fig_x = Some ''Name'', fig_y = None,
            fig_title = ''Distribution of None by Name''\<rparr>"
  by (simp_all add: select_and_chart_def Let_def selectbox_def notes_numeric column_names_def
      build_chart_def px_figure_def known_column_def fmt_def)
    (simp_all add: notes_df_def)

lemma sales_box_chart:
  "select_and_chart sales_df 2 0 BoxPlot =
      Inr \<lparr>fig_kind = BoxPlot, fig_x = Some ''Region'', fig_y = Some ''Sales'',
           fig_title = ''Distribution of Sales by Region''\<rparr>"
  by (simp add: select_and_chart_def selectbox_def select_dtypes_numeric_def
      column_names_def sales_df_def is_numeric_def build_chart_def px_figure_def
      known_column_def fmt_def Let_def)

lemma notes_upload_outcome:
  "fst (main sample_reader sample_writer sample_decoder
          (upload_of notes_file ''2024-05-01 10:00'') (fresh Map.empty))
     = map_sum id Dashboard
         (main_content sample_writer (upload_of notes_file ''2024-05-01 10:00'') notes_df)"
proof -
  have r: "sample_reader (file_bytes notes_file) = Inr notes_df"
    by (simp add: sample_reader_def notes_file_def scenario_csv_def sales_csv_def
        notes_csv_def newline_def)
  have l: "load_data sample_reader notes_file (data_cache (fresh Map.empty))
             = (Inr notes_df, Some notes_df)"
    using r by (simp add: fresh_observed load_data_cold)
  have h: "history sample_decoder (fresh Map.empty) = Some []"
    by (simp add: fresh_observed history_log_def)
  show ?thesis
    by (rule main_loaded_page [OF uploaded_file_simps(1) l fresh_observed(1) h])
qed

lemma notes_content:
  "chart_shown (map_sum id Dashboard
      (main_content sample_writer (upload_of notes_file ''2024-05-01 10:00'') notes_df))
     = Some \<lparr>fig_kind = ScatterPlot, fig_x = Some ''Name'', fig_y = None,
             fig_title = ''None vs Name''\<rparr>"
  "\<exists>c. main_content sample_writer (upload_of notes_file ''2024-05-01 10:00'') notes_df
         = Inl (ValueError, UpToChart c)"
  by (simp_all add: main_content_def upload_of_def notes_charts notes_numeric
      getitem_columns_def describe_def chart_shown_def)

theorem chart_y_axis_is_numeric_or_none_witness:
  "select_and_chart sales_df 2 0 BoxPlot =
      Inr \<lparr>fig_kind = BoxPlot, fig_x = Some ''Region'', fig_y = Some ''Sales'',
           fig_title = ''Distribution of Sales by Region''\<rparr>
   \<and> (\<exists>c\<in>set (columns sales_df). cname c = ''Sales''
         \<and> (col_dtype c = Float64 \<or> col_dtype c = Int64))
   \<and> chart_shown (fst (main sample_reader sample_writer sample_decoder
         (chart_change_of sales_file ''2024-05-01 10:05'') loaded_world))
       = Some \<lparr>fig_kind = LineChart, fig_x = Some ''Date'', fig_y = Some ''Sales'',
               fig_title = ''Sales over Date''\<rparr>"
proof -
  have c: "chart_shown (fst (main sample_reader sample_writer sample_decoder
         (chart_change_of sales_file ''2024-05-01 10:05'') loaded_world))
       = Some \<lparr>fig_kind = LineChart, fig_x = Some ''Date'', fig_y = Some ''Sales'',
               fig_title = ''Sales over Date''\<rparr>"
    using main_loaded_page [OF uploaded_file_simps(2) [of sales_file "''2024-05-01 10:05''"]
        loaded_world_load [of sales_file] loaded_world_observed(1) loaded_world_observed(2),
        where to_csv = sample_writer]
    by (simp add: chart_shown_def main_content_def chart_change_of_def upload_of_def
        select_and_chart_def selectbox_def select_dtypes_numeric_def column_names_def
        sales_df_def is_numeric_def build_chart_def px_figure_def known_column_def fmt_def
        describe_def getitem_columns_def Let_def)
  show ?thesis
    using sales_box_chart c
      chart_y_axis_is_numeric_or_none
        [where df = sales_df and xp = 2 and yp = 0 and k = BoxPlot
          and fig = "\<lparr>fig_kind = BoxPlot, fig_x = Some ''Region'',
             fig_y = Some ''Sales'', fig_title = ''Distribution of Sales by Region''\<rparr>"
          and inp = "chart_change_of sales_file ''2024-05-01 10:05''" and f = sales_file
          and read_csv = sample_reader and w = loaded_world and slot = "Some sales_df"
          and to_csv = sample_writer and json_loads = sample_decoder
          and shown_fig = "\<lparr>fig_kind = LineChart, fig_x = Some ''Date'',
             fig_y = Some ''Sales'', fig_title = ''Sales over Date''\<rparr>"]
    by (simp add: uploaded_file_simps loaded_world_observed load_data_warm)
qed

text \<open>
  C9 (as stated) fails: the notes file has text columns only. Uploaded in a new session
  and process, it gets a chart on the page whose y-axis is no column at all, since the
  frame has no numeric column to draw it from.
\<close>

theorem chart_without_y_is_shown:
  "sample_reader (file_bytes notes_file) = Inr notes_df
   \<and> select_dtypes_numeric notes_df = []
   \<and> chart_shown (fst (main sample_reader sample_writer sample_decoder
         (upload_of notes_file ''2024-05-01 10:00'') (fresh Map.empty)))
       = Some \<lparr>fig_kind = ScatterPlot, fig_x = Some ''Name'', fig_y = None,
               fig_title = ''None vs Name''\<rparr>"
proof -
  have "sample_reader (file_bytes notes_file) = Inr notes_df"
    by (simp add: sample_reader_def notes_file_def scenario_csv_def sales_csv_def
        notes_csv_def newline_def)
  then show ?thesis
    by (simp add: notes_numeric notes_upload_outcome notes_content(1))
qed

text \<open>
  C7 (as amended). For every chart kind and every pair of positions picked in the two
  select boxes, on a dataset with at least one column, the selection and the chart
  branches raise nothing (the program has no \<^verbatim>\<open>InvalidSelectionError\<close>) and build the
  chart of that kind with its title: the x column is a column of the dataset, and the
  y column is one of its numeric columns or, when it has none, \<^verbatim>\<open>None\<close>. A y column
  that is not numeric and a name that is absent from the dataset cannot be chosen.
\<close>

theorem selection_always_charts:
  "columns df \<noteq> [] \<longrightarrow>
     (\<exists>x y. select_and_chart df xp yp k =
               Inr \<lparr>fig_kind = k, fig_x = Some x, fig_y = y,
                    fig_title =
                      (case k of
                         ScatterPlot \<Rightarrow> fmt y @ '' vs '' @ x
                       | LineChart \<Rightarrow> fmt y @ '' over '' @ x
                       | BarChart \<Rightarrow> fmt y @ '' by '' @ x
                       | BoxPlot \<Rightarrow> ''Distribution of '' @ fmt y @ '' by '' @ x)\<rparr>
           \<and> x \<in> set (column_names df)
           \<and> (case y of
                 None \<Rightarrow> select_dtypes_numeric df = []
               | Some n \<Rightarrow> n \<in> set (select_dtypes_numeric df)))"
proof
  assume "columns df \<noteq> []"
  then have "column_names df \<noteq> []"
    by (simp add: column_names_def)
  then obtain x where x: "selectbox (column_names df) xp = Some x" "x \<in> set (column_names df)"
    using selectbox_cases [of "column_names df" xp] by auto
  let ?y = "selectbox (select_dtypes_numeric df) yp"
  have y: "case ?y of None \<Rightarrow> select_dtypes_numeric df = []
           | Some n \<Rightarrow> n \<in> set (select_dtypes_numeric df)"
    using y_axis_cases [of df yp] by auto
  then have ky: "known_column df ?y"
    by (auto simp: known_column_def numeric_names_known split: option.splits)
  have kx: "known_column df (Some x)"
    using x(2) by (simp add: known_column_def)
  have "select_and_chart df xp yp k =
          Inr \<lparr>fig_kind = k, fig_x = Some x, fig_y = ?y,
               fig_title =
                 (case k of
                    ScatterPlot \<Rightarrow> fmt ?y @ '' vs '' @ x
                  | LineChart \<Rightarrow> fmt ?y @ '' over '' @ x
                  | BarChart \<Rightarrow> fmt ?y @ '' by '' @ x
                  | BoxPlot \<Rightarrow> ''Distribution of '' @ fmt ?y @ '' by '' @ x)\<rparr>"
    using build_chart_title [OF kx ky, of k] x(1)
    by (cases k) (simp_all add: select_and_chart_def Let_def fmt_Some)
  then show "\<exists>x y. select_and_chart df xp yp k =
               Inr \<lparr>fig_kind = k, fig_x = Some x, fig_y = y,
                    fig_title =
                      (case k of
                         ScatterPlot \<Rightarrow> fmt y @ '' vs '' @ x
                       | LineChart \<Rightarrow> fmt y @ '' over '' @ x
                       | BarChart \<Rightarrow> fmt y @ '' by '' @ x
                       | BoxPlot \<Rightarrow> ''Distribution of '' @ fmt y @ '' by '' @ x)\<rparr>
           \<and> x \<in> set (column_names df)
           \<and> (case y of
                 None \<Rightarrow> select_dtypes_numeric df = []
               | Some n \<Rightarrow> n \<in> set (select_dtypes_numeric df))"
    using x(2) y by blast
qed

theorem selection_always_charts_witness:
  "columns sales_df \<noteq> []
   \<and> (\<exists>x y. select_and_chart sales_df 7 7 BarChart =
               Inr \<lparr>fig_kind = BarChart, fig_x = Some x, fig_y = y,
                    fig_title = fmt y @ '' by '' @ x\<rparr>
           \<and> x \<in> set (column_names sales_df))"
proof -
  have c: "columns sales_df \<noteq> []"
    by (simp add: sales_df_def)
  show ?thesis
    using c selection_always_charts [of sales_df 7 7 BarChart] by auto
qed

text \<open>
  C7 (as stated) fails: the notes frame has no numeric column, so the y choice is
  \<^verbatim>\<open>None\<close>, which is not a numeric column of the dataset; every chart kind builds
  its chart all the same, and nothing is raised.
\<close>

theorem text_only_frame_is_charted:
  "select_dtypes_numeric notes_df = []
   \<and> selectbox (select_dtypes_numeric notes_df) 0 = None
   \<and> select_and_chart notes_df 0 0 ScatterPlot
       = Inr \<lparr>fig_kind = ScatterPlot, fig_x = Some ''Name'', fig_y = None,
              fig_title = ''None vs Name''\<rparr>
   \<and> select_and_chart notes_df 0 0 LineChart
       = Inr \<lparr>fig_kind = LineChart, fig_x = Some ''Name'', fig_y = None,
              fig_title = ''None over Name''\<rparr>
   \<and> select_and_chart notes_df 0 0 BarChart
       = Inr \<lparr>fig_kind = BarChart, fig_x = Some ''Name'', fig_y = None,
              fig_title = ''None by Name''\<rparr>
   \<and> select_and_chart notes_df 0 0 BoxPlot
       = Inr \<lparr>fig_kind = BoxPlot, fig_x = Some ''Name'', fig_y = None,
              fig_title = ''Distribution of None by Name''\<rparr>"
  by (simp add: notes_numeric notes_charts selectbox_def)

subsection \<open>Statistics without a value\<close>

lemma describe_column_empty:
  assumes "non_missing cs = []"
  shows "describe_column cs =
           \<lparr>d_count = Fin 0, d_mean = NaN, d_std = NaN, d_min = NaN,
            d_q25 = NaN, d_q50 = NaN, d_q75 = NaN, d_max = NaN\<rparr>"
  using assms
  by (simp add: describe_column_def Let_def mean_def std_def minimum_def maximum_def
      quantile_def)

lemma set_map_filter_iff:
  "y \<in> set (List.map_filter f xs) \<longleftrightarrow> (\<exists>x\<in>set xs. f x = Some y)"
  by (induction xs) (auto simp: List.map_filter_simps split: option.splits)

lemma paired_fst:
  assumes "p \<in> set (paired a b)"
  shows "fst p \<in> set (non_missing a)"
proof -
  from assms obtain u v where uv: "(u, v) \<in> set (zip a b)" "cell_value u = Some (fst p)"
    by (auto simp: paired_def set_map_filter_iff split: option.splits)
  then have "u \<in> set a"
    by (auto dest: set_zip_leftD)
  then show ?thesis
    using uv(2) by (auto simp: non_missing_def set_map_filter_iff)
qed

lemma paired_snd:
  assumes "p \<in> set (paired a b)"
  shows "snd p \<in> set (non_missing b)"
proof -
  from assms obtain u v where uv: "(u, v) \<in> set (zip a b)" "cell_value v = Some (snd p)"
    by (auto simp: paired_def set_map_filter_iff split: option.splits)
  then have "v \<in> set b"
    by (auto dest: set_zip_rightD)
  then show ?thesis
    using uv(2) by (auto simp: non_missing_def set_map_filter_iff)
qed

lemma sum_list_constant:
  fixes k :: real
  assumes "\<forall>x\<in>set xs. f x = k"
  shows "sum_list (map f xs) = real (length xs) * k"
  using assms by (induction xs) (simp_all add: algebra_simps)

lemma pearson_divisor_zero:
  assumes "ps \<noteq> []"
    and "sum_list (map (\<lambda>p. (fst p - sum_list (map fst ps) / real (length ps))\<^sup>2) ps) = 0
         \<or> sum_list (map (\<lambda>p. (snd p - sum_list (map snd ps) / real (length ps))\<^sup>2) ps) = 0"
  shows "pearson ps = NaN"
  using assms by (auto simp: pearson_def Let_def)

lemma pearson_constant_fst:
  assumes "\<forall>p\<in>set ps. fst p = k"
  shows "pearson ps = NaN"
proof (cases "ps = []")
  case True
  then show ?thesis by (simp add: pearson_def)
next
  case False
  then have n: "real (length ps) \<noteq> 0"
    by simp
  have "sum_list (map fst ps) = real (length ps) * k"
    using assms by (rule sum_list_constant)
  then have m: "sum_list (map fst ps) / real (length ps) = k"
    using n by simp
  have "sum_list (map (\<lambda>p. (fst p - k)\<^sup>2) ps) = real (length ps) * 0"
    using assms by (intro sum_list_constant) simp
  then have "sum_list (map (\<lambda>p. (fst p - sum_list (map fst ps) / real (length ps))\<^sup>2) ps) = 0"
    by (simp add: m)
  then show ?thesis
    using False by (intro pearson_divisor_zero) simp_all
qed

lemma pearson_constant_snd:
  assumes "\<forall>p\<in>set ps. snd p = k"
  shows "pearson ps = NaN"
proof (cases "ps = []")
  case True
  then show ?thesis by (simp add: pearson_def)
next
  case False
  then have n: "real (length ps) \<noteq> 0"
    by simp
  have "sum_list (map snd ps) = real (length ps) * k"
    using assms by (rule sum_list_constant)
  then have m: "sum_list (map snd ps) / real (length ps) = k"
    using n by simp
  have "sum_list (map (\<lambda>p. (snd p - k)\<^sup>2) ps) = real (length ps) * 0"
    using assms by (intro sum_list_constant) simp
  then have "sum_list (map (\<lambda>p. (snd p - sum_list (map snd ps) / real (length ps))\<^sup>2) ps) = 0"
    by (simp add: m)
  then show ?thesis
    using False by (intro pearson_divisor_zero) simp_all
qed

lemma zero_variance_constant:
  assumes "zero_variance xs"
  shows "\<exists>k. \<forall>x\<in>set xs. x = k"
  using assms by (cases xs) (auto simp: zero_variance_def list_all_iff)

lemma main_content_tables:
  assumes "main_content to_csv inp df = Inr pg"
  shows "statistics pg = map (\<lambda>c. (cname c, describe_column (cells c)))
                           (getitem_columns df (select_dtypes_numeric df))"
    and "heatmap pg = corr (getitem_columns df (select_dtypes_numeric df))"
  using assms
  by (auto simp: main_content_def describe_def split: sum.splits if_splits)

text \<open>
  C6 (as amended). For every numeric column with zero non-missing values, the
  description is count 0 and \<^verbatim>\<open>NaN\<close> for the mean, the standard deviation, the
  minimum, the quartiles and the maximum; for every numeric column with zero variance,
  its correlation with every column, in both positions of the matrix, is \<^verbatim>\<open>NaN\<close>.
  The dashboard shows the results of \<^verbatim>\<open>describe\<close> and \<^verbatim>\<open>corr\<close> as they are: the
  statistics of a page are the descriptions of the numeric columns, and its heatmap is
  their correlation matrix.
\<close>

theorem undefined_statistics_are_nan:
  "(non_missing cs = [] \<longrightarrow>
      describe_column cs =
        \<lparr>d_count = Fin 0, d_mean = NaN, d_std = NaN, d_min = NaN,
         d_q25 = NaN, d_q50 = NaN, d_q75 = NaN, d_max = NaN\<rparr>)
   \<and> (zero_variance (non_missing a) \<longrightarrow>
      pearson (paired a b) = NaN \<and> pearson (paired b a) = NaN)
   \<and> (main_content to_csv inp df = Inr pg \<longrightarrow>
      statistics pg = map (\<lambda>c. (cname c, describe_column (cells c)))
                        (getitem_columns df (select_dtypes_numeric df))
      \<and> heatmap pg = map (\<lambda>a. map (\<lambda>b. pearson (paired (cells a) (cells b)))
                                (getitem_columns df (select_dtypes_numeric df)))
                        (getitem_columns df (select_dtypes_numeric df)))"
proof (intro conjI impI)
  assume m: "main_content to_csv inp df = Inr pg"
  show "statistics pg = map (\<lambda>c. (cname c, describe_column (cells c)))
                        (getitem_columns df (select_dtypes_numeric df))"
    by (rule main_content_tables(1) [OF m])
  show "heatmap pg = map (\<lambda>a. map (\<lambda>b. pearson (paired (cells a) (cells b)))
                                (getitem_columns df (select_dtypes_numeric df)))
                        (getitem_columns df (select_dtypes_numeric df))"
    using main_content_tables(2) [OF m] by (simp add: corr_def)
next
  assume "non_missing cs = []"
  then show "describe_column cs =
        \<lparr>d_count = Fin 0, d_mean = NaN, d_std = NaN, d_min = NaN,
         d_q25 = NaN, d_q50 = NaN, d_q75 = NaN, d_max = NaN\<rparr>"
    by (rule describe_column_empty)
next
  assume "zero_variance (non_missing a)"
  then obtain k where k: "\<forall>x\<in>set (non_missing a). x = k"
    using zero_variance_constant by blast
  then have "\<forall>p\<in>set (paired a b). fst p = k"
    using paired_fst by blast
  then show "pearson (paired a b) = NaN"
    by (rule pearson_constant_fst)
next
  assume "zero_variance (non_missing a)"
  then obtain k where k: "\<forall>x\<in>set (non_missing a). x = k"
    using zero_variance_constant by blast
  then have "\<forall>p\<in>set (paired b a). snd p = k"
    using paired_snd by blast
  then show "pearson (paired b a) = NaN"
    by (rule pearson_constant_snd)
qed

theorem undefined_statistics_are_nan_witness:
  "non_missing [NA, NA, NA] = []
   \<and> d_mean (describe_column [NA, NA, NA]) = NaN
   \<and> zero_variance (non_missing [IntV 2, IntV 2, IntV 2])
   \<and> pearson (paired [IntV 2, IntV 2, IntV 2] [FloatV 1, FloatV 2, FloatV 3]) = NaN
   \<and> pearson (paired [FloatV 1, FloatV 2, FloatV 3] [IntV 2, IntV 2, IntV 2]) = NaN"
proof -
  have e: "non_missing [NA, NA, NA] = []"
    by (simp add: non_missing_def)
  have z: "zero_variance (non_missing [IntV 2, IntV 2, IntV 2])"
    by (simp add: non_missing_def zero_variance_def)
  show ?thesis
    using e z undefined_statistics_are_nan
      [of "[NA, NA, NA]" "[IntV 2, IntV 2, IntV 2]" "[FloatV 1, FloatV 2, FloatV 3]"]
    by simp
qed

lemma flat_numeric_columns:
  "getitem_columns flat_df (select_dtypes_numeric flat_df) = columns flat_df"
  by (simp add: select_dtypes_numeric_def is_numeric_def getitem_columns_def flat_df_def)

text \<open>
  C6 (as stated) fails: in the frame \<open>flat_df\<close>, \<open>e\<close> is a numeric column without a value
  and \<open>k\<close> a numeric column with zero variance. The description of \<open>e\<close> that the
  dashboard shows has \<^verbatim>\<open>NaN\<close> as its mean (and as every statistic but the count), and
  the rows of \<open>e\<close> and \<open>k\<close> in the correlation matrix it shows are \<^verbatim>\<open>NaN\<close> throughout.
\<close>

theorem nan_is_shown:
  "describe (getitem_columns flat_df (select_dtypes_numeric flat_df))
       = Inr [(''e'', \<lparr>d_count = Fin 0, d_mean = NaN, d_std = NaN, d_min = NaN,
                      d_q25 = NaN, d_q50 = NaN, d_q75 = NaN, d_max = NaN\<rparr>),
              (''k'', describe_column [IntV 2, IntV 2, IntV 2]),
              (''v'', describe_column [FloatV 1, FloatV 2, FloatV 3])]
   \<and> corr (getitem_columns flat_df (select_dtypes_numeric flat_df)) ! 0 = [NaN, NaN, NaN]
   \<and> corr (getitem_columns flat_df (select_dtypes_numeric flat_df)) ! 1 = [NaN, NaN, NaN]"
proof -
  have e: "describe_column [NA, NA, NA] =
      \<lparr>d_count = Fin 0, d_mean = NaN, d_std = NaN, d_min = NaN,
       d_q25 = NaN, d_q50 = NaN, d_q75 = NaN, d_max = NaN\<rparr>"
    by (rule describe_column_empty) (simp add: non_missing_def)
  have p0: "pearson (paired [NA, NA, NA] b) = NaN" for b
    by (rule pearson_constant_fst [where k = 0]) (use paired_fst [of _ "[NA, NA, NA]" b] in
        \<open>auto simp: non_missing_def\<close>)
  have p1: "pearson (paired [IntV 2, IntV 2, IntV 2] b) = NaN" for b
    by (rule pearson_constant_fst [where k = 2]) (use paired_fst [of _ "[IntV 2, IntV 2, IntV 2]" b] in
        \<open>auto simp: non_missing_def\<close>)
  have d: "describe (columns flat_df) =
      Inr [(''e'', describe_column [NA, NA, NA]),
           (''k'', describe_column [IntV 2, IntV 2, IntV 2]),
           (''v'', describe_column [FloatV 1, FloatV 2, FloatV 3])]"
    by (simp add: describe_def flat_df_def)
  have c: "corr (columns flat_df) ! 0 = [NaN, NaN, NaN]"
      "corr (columns flat_df) ! 1 = [NaN, NaN, NaN]"
    by (simp_all add: corr_def flat_df_def p0 p1)
  show ?thesis
    using c by (simp add: flat_numeric_columns d e)
qed

end
